theory Spec2Isabelle
  imports Complex_Main "HOL-Library.Product_Lexorder"
begin

section \<open>Numbers and arrays\<close>

text \<open>
  The module \<^verbatim>\<open>seispy/rfcorrect.py\<close> computes on NumPy arrays of IEEE doubles.  An
  array is a list.  A double is a value of \<open>fl\<close>: a finite number, one of the two
  infinities, or NaN.  Finite arithmetic is exact (rounding, overflow and the sign of
  zero are not represented); the special values follow IEEE 754: NaN is absorbing,
  \<open>inf - inf\<close>, \<open>0 * inf\<close>, \<open>0 / 0\<close> and \<open>inf / inf\<close> are NaN, a non-zero finite
  number divided by zero is an infinity, and every comparison with NaN is false.
\<close>

datatype fl = Fin real | PInf | NInf | NaN

fun isnan :: "fl \<Rightarrow> bool" where
  "isnan NaN = True"
| "isnan _ = False"

fun fneg :: "fl \<Rightarrow> fl" where
  "fneg (Fin a) = Fin (- a)"
| "fneg PInf = NInf"
| "fneg NInf = PInf"
| "fneg NaN = NaN"

fun fadd :: "fl \<Rightarrow> fl \<Rightarrow> fl" where
  "fadd (Fin a) (Fin b) = Fin (a + b)"
| "fadd NaN _ = NaN"
| "fadd _ NaN = NaN"
| "fadd PInf NInf = NaN"
| "fadd NInf PInf = NaN"
| "fadd PInf _ = PInf"
| "fadd _ PInf = PInf"
| "fadd NInf _ = NInf"
| "fadd _ NInf = NInf"

definition fsub :: "fl \<Rightarrow> fl \<Rightarrow> fl" where
  "fsub x y = fadd x (fneg y)"

fun fmul :: "fl \<Rightarrow> fl \<Rightarrow> fl" where
  "fmul (Fin a) (Fin b) = Fin (a * b)"
| "fmul NaN _ = NaN"
| "fmul _ NaN = NaN"
| "fmul (Fin a) PInf = (if a = 0 then NaN else if 0 < a then PInf else NInf)"
| "fmul (Fin a) NInf = (if a = 0 then NaN else if 0 < a then NInf else PInf)"
| "fmul PInf (Fin b) = (if b = 0 then NaN else if 0 < b then PInf else NInf)"
| "fmul NInf (Fin b) = (if b = 0 then NaN else if 0 < b then NInf else PInf)"
| "fmul PInf PInf = PInf"
| "fmul PInf NInf = NInf"
| "fmul NInf PInf = NInf"
| "fmul NInf NInf = PInf"

fun fdiv :: "fl \<Rightarrow> fl \<Rightarrow> fl" where
  "fdiv (Fin a) (Fin b) =
     (if b = 0 then (if a = 0 then NaN else if 0 < a then PInf else NInf)
      else Fin (a / b))"
| "fdiv NaN _ = NaN"
| "fdiv _ NaN = NaN"
| "fdiv (Fin a) PInf = Fin 0"
| "fdiv (Fin a) NInf = Fin 0"
| "fdiv PInf (Fin b) = (if 0 \<le> b then PInf else NInf)"
| "fdiv NInf (Fin b) = (if 0 \<le> b then NInf else PInf)"
| "fdiv PInf PInf = NaN"
| "fdiv PInf NInf = NaN"
| "fdiv NInf PInf = NaN"
| "fdiv NInf NInf = NaN"

fun fsqrt :: "fl \<Rightarrow> fl" where
  "fsqrt (Fin a) = (if a < 0 then NaN else Fin (sqrt a))"
| "fsqrt PInf = PInf"
| "fsqrt NInf = NaN"
| "fsqrt NaN = NaN"

fun flt :: "fl \<Rightarrow> fl \<Rightarrow> bool" where
  "flt (Fin a) (Fin b) = (a < b)"
| "flt NaN _ = False"
| "flt _ NaN = False"
| "flt _ NInf = False"
| "flt PInf _ = False"
| "flt NInf _ = True"
| "flt _ PInf = True"

fun feq :: "fl \<Rightarrow> fl \<Rightarrow> bool" where
  "feq NaN _ = False"
| "feq _ NaN = False"
| "feq x y = (x = y)"

definition fle :: "fl \<Rightarrow> fl \<Rightarrow> bool" where
  "fle x y = (flt x y \<or> feq x y)"

text \<open>
  A complex128 element is a pair of doubles.  A float64 array read through
  \<^verbatim>\<open>np.imag\<close> has imaginary part zero everywhere.
\<close>

record cnum =
  re_part :: fl
  im_part :: fl

definition cnan :: cnum where
  "cnan = \<lparr>re_part = NaN, im_part = Fin 0\<rparr>"

definition of_float :: "fl \<Rightarrow> cnum" where
  "of_float x = \<lparr>re_part = x, im_part = Fin 0\<rparr>"

text \<open>\<^verbatim>\<open>np.where(mask)[0]\<close>: the indices at which the condition holds, ascending.\<close>

definition np_where :: "bool list \<Rightarrow> nat list" where
  "np_where bs = filter (\<lambda>i. bs ! i) [0..<length bs]"

text \<open>
  Where the element type of an array matters, a one-dimensional array is of dtype
  int64 (as \<^verbatim>\<open>np.arange(0, 150)\<close>, the default depth grid of the module) or float64.
  Integers are unbounded here (the overflow of int64 is not represented).  \<open>as_float\<close>
  reads the elements as doubles.  A Python number is an \<^verbatim>\<open>int\<close> or a \<^verbatim>\<open>float\<close>.
  \<^verbatim>\<open>int(x)\<close>, like the C conversion of a finite double to an integer, rounds towards
  zero.
\<close>

datatype dtype = Int64 | Float64

datatype ndarray = IntArr "int list" | FloatArr "fl list"

definition dtype_of :: "ndarray \<Rightarrow> dtype" where
  "dtype_of a = (case a of IntArr _ \<Rightarrow> Int64 | FloatArr _ \<Rightarrow> Float64)"

definition as_float :: "ndarray \<Rightarrow> fl list" where
  "as_float a = (case a of IntArr ks \<Rightarrow> map (\<lambda>k. Fin (of_int k)) ks | FloatArr xs \<Rightarrow> xs)"

definition alen :: "ndarray \<Rightarrow> nat" where
  "alen a = (case a of IntArr ks \<Rightarrow> length ks | FloatArr xs \<Rightarrow> length xs)"

datatype pynum = PyInt int | PyFloat fl

definition num_val :: "pynum \<Rightarrow> fl" where
  "num_val z = (case z of PyInt k \<Rightarrow> Fin (of_int k) | PyFloat x \<Rightarrow> x)"

definition py_int :: "real \<Rightarrow> int" where
  "py_int x = (if 0 \<le> x then \<lfloor>x\<rfloor> else \<lceil>x\<rceil>)"

section \<open>\<^verbatim>\<open>_imag2nan\<close>\<close>

text \<open>
  \<^verbatim>\<open>
  def _imag2nan(arr):
      StopIndex = np.where(np.imag(arr) == 1)[0]
      if StopIndex.size != 0:
          arr[StopIndex[0]:] = np.nan
      return arr
  \<close>
  The test is \<^verbatim>\<open>np.imag(arr) == 1\<close>: equality of the imaginary part with one.
\<close>

definition imag_is_one :: "cnum list \<Rightarrow> bool list" where
  "imag_is_one arr = map (\<lambda>v. feq (im_part v) (Fin 1)) arr"

definition imag2nan :: "cnum list \<Rightarrow> cnum list" where
  "imag2nan arr =
     (let StopIndex = np_where (imag_is_one arr) in
      if StopIndex \<noteq> [] then
        take (hd StopIndex) arr @ replicate (length arr - hd StopIndex) cnan
      else arr)"

section \<open>Errors, shapes and elementwise operations\<close>

text \<open>
  A Python exception is a value: a function that can raise returns \<open>error + 'a\<close>, with
  \<open>Inl\<close> the exception.  A loop over the events stops at the first exception.
  \<open>Unmodelled\<close> is not an exception: it marks the one place where the source goes on
  with an operation that is left out here (SciPy's interpolation over abscissae with
  non-zero imaginary parts), so that nothing is stated about it.
\<close>

datatype error =
  ValueError | TypeError | IndexError | KeyError | AttributeError
  | FileNotFoundError | ZeroDivisionError | Unmodelled

definition bindE :: "error + 'a \<Rightarrow> ('a \<Rightarrow> error + 'b) \<Rightarrow> error + 'b" where
  "bindE m f = (case m of Inl e \<Rightarrow> Inl e | Inr v \<Rightarrow> f v)"

fun mapE :: "('a \<Rightarrow> error + 'b) \<Rightarrow> 'a list \<Rightarrow> error + 'b list" where
  "mapE f [] = Inr []"
| "mapE f (x # xs) = bindE (f x) (\<lambda>y. bindE (mapE f xs) (\<lambda>ys. Inr (y # ys)))"

text \<open>\<^verbatim>\<open>A[i]\<close> on the first axis of a two-dimensional array.\<close>

definition row :: "'a list \<Rightarrow> nat \<Rightarrow> error + 'a" where
  "row A i = (if i < length A then Inr (A ! i) else Inl IndexError)"

text \<open>
  NumPy's broadcasting of two one-dimensional operands: equal lengths combine index by
  index, an operand of length one is repeated, anything else raises \<^verbatim>\<open>ValueError\<close>.  A
  Python scalar behaves as the array of length one.
\<close>

definition bc :: "(fl \<Rightarrow> fl \<Rightarrow> fl) \<Rightarrow> fl list \<Rightarrow> fl list \<Rightarrow> error + fl list" where
  "bc f xs ys =
     (if length xs = length ys then Inr (map2 f xs ys)
      else if length xs = 1 then Inr (map (f (hd xs)) ys)
      else if length ys = 1 then Inr (map (\<lambda>x. f x (hd ys)) xs)
      else Inl ValueError)"

text \<open>The same on the first axis of two-dimensional operands, rows combined by \<open>bc\<close>.\<close>

definition bc_rows ::
  "(fl \<Rightarrow> fl \<Rightarrow> fl) \<Rightarrow> fl list list \<Rightarrow> fl list list \<Rightarrow> error + fl list list" where
  "bc_rows f A B =
     (if length A = length B then mapE (\<lambda>(r, s). bc f r s) (zip A B)
      else if length A = 1 then mapE (\<lambda>s. bc f (hd A) s) B
      else if length B = 1 then mapE (\<lambda>r. bc f r (hd B)) A
      else Inl ValueError)"

text \<open>
  \<^verbatim>\<open>A[i] = v\<close> for a row of length \<open>m\<close>: \<open>v\<close> has length \<open>m\<close>, or length one and is
  repeated; the value stored is returned.
\<close>

definition assign_row :: "nat \<Rightarrow> fl list \<Rightarrow> error + fl list" where
  "assign_row m v =
     (if length v = m then Inr v
      else if length v = 1 then Inr (replicate m (hd v))
      else Inl ValueError)"

text \<open>\<^verbatim>\<open>np.cumsum\<close>: running sums from the left.\<close>

fun cumsum_from :: "fl \<Rightarrow> fl list \<Rightarrow> fl list" where
  "cumsum_from a [] = []"
| "cumsum_from a (x # xs) = fadd a x # cumsum_from (fadd a x) xs"

definition cumsum :: "fl list \<Rightarrow> fl list" where
  "cumsum xs = (case xs of [] \<Rightarrow> [] | x # r \<Rightarrow> x # cumsum_from x r)"

text \<open>\<^verbatim>\<open>a[np.isnan(a)] = 0\<close>.\<close>

definition nan_to_zero :: "fl list \<Rightarrow> fl list" where
  "nan_to_zero a = map (\<lambda>v. if isnan v then Fin 0 else v) a"

section \<open>\<^verbatim>\<open>psrf_3D_migration\<close>\<close>

text \<open>
  The perturbation model \<^verbatim>\<open>Mod3DPerturbation\<close> is not part of this module.  Its two
  interpolation methods and its reference velocities \<^verbatim>\<open>cvp\<close>, \<^verbatim>\<open>cvs\<close> are fields of
  a record; a point is a triple (depth, latitude, longitude).
\<close>

record mod3d_pert =
  interpdvp :: "(fl \<times> fl \<times> fl) list \<Rightarrow> fl list"
  interpdvs :: "(fl \<times> fl \<times> fl) list \<Rightarrow> fl list"
  cvp :: "fl list"
  cvs :: "fl list"

text \<open>
  \<^verbatim>\<open>np.array([YAxisRange, lat, lon]).T\<close>: the three arrays have one length, else NumPy
  refuses the ragged nesting.
\<close>

definition points_of :: "fl list \<Rightarrow> fl list \<Rightarrow> fl list \<Rightarrow> error + (fl \<times> fl \<times> fl) list" where
  "points_of deps lat lon =
     (if length lat = length deps \<and> length lon = length deps
      then Inr (zip deps (zip lat lon)) else Inl ValueError)"

text \<open>
  \<^verbatim>\<open>dl / (cv * (1 + dv)) - dl / cv\<close>, the travel-time change of one leg.
\<close>

definition leg_change :: "fl list \<Rightarrow> fl list \<Rightarrow> fl list \<Rightarrow> error + fl list" where
  "leg_change dl cv dv =
     bindE (bc fmul cv (map (fadd (Fin 1)) dv)) (\<lambda>den.
     bindE (bc fdiv dl den) (\<lambda>pert.
     bindE (bc fdiv dl cv) (\<lambda>ref.
     bc fsub pert ref)))"

text \<open>
  The body of the loop for event \<open>i\<close>:
  \<^verbatim>\<open>
  points = np.array([YAxisRange, pplat_p[i], pplon_p[i]]).T
  dvp = mod3d.interpdvp(points)
  points = np.array([YAxisRange, pplat_s[i], pplon_s[i]]).T
  dvs = mod3d.interpdvs(points)
  dlp = raylength_p[i]
  dls = raylength_s[i]
  tmpds = (dls / (mod3d.cvs * (1 + dvs)) - dls / mod3d.cvs)
          - (dlp / (mod3d.cvp * (1 + dvp)) - dlp / mod3d.cvp)
  tmpds[np.isnan(tmpds)] = 0
  timecorrections[i] = np.cumsum(tmpds)
  \<close>
\<close>

definition tmpds_of ::
  "mod3d_pert \<Rightarrow> fl list \<Rightarrow> fl list \<Rightarrow> fl list \<Rightarrow> fl list \<Rightarrow> error + fl list" where
  "tmpds_of m dls dvs dlp dvp =
     bindE (leg_change dls (cvs m) dvs) (\<lambda>ds.
     bindE (leg_change dlp (cvp m) dvp) (\<lambda>dp.
     bc fsub ds dp))"

definition timecorrection_row ::
  "mod3d_pert \<Rightarrow> fl list \<Rightarrow> fl list list \<Rightarrow> fl list list \<Rightarrow> fl list list \<Rightarrow> fl list list
     \<Rightarrow> fl list list \<Rightarrow> fl list list \<Rightarrow> nat \<Rightarrow> error + fl list" where
  "timecorrection_row m YAxisRange pplat_s pplon_s pplat_p pplon_p raylength_s raylength_p i =
     bindE (row pplat_p i) (\<lambda>lat_p.
     bindE (row pplon_p i) (\<lambda>lon_p.
     bindE (points_of YAxisRange lat_p lon_p) (\<lambda>points_p.
     let dvp = interpdvp m points_p in
     bindE (row pplat_s i) (\<lambda>lat_s.
     bindE (row pplon_s i) (\<lambda>lon_s.
     bindE (points_of YAxisRange lat_s lon_s) (\<lambda>points_s.
     let dvs = interpdvs m points_s in
     bindE (row raylength_p i) (\<lambda>dlp.
     bindE (row raylength_s i) (\<lambda>dls.
     bindE (tmpds_of m dls dvs dlp dvp) (\<lambda>tmpds.
     assign_row (length dlp) (cumsum (nan_to_zero tmpds)))))))))))"

text \<open>
  \<^verbatim>\<open>
  def psrf_3D_migration(pplat_s, pplon_s, pplat_p, pplon_p, raylength_s, raylength_p,
                        Tpds, YAxisRange, mod3d):
      ev_num, _ = raylength_p.shape
      timecorrections = np.zeros_like(raylength_p)
      for i in range(ev_num):
          ...
      return Tpds + timecorrections
  \<close>
\<close>

definition timecorrections ::
  "mod3d_pert \<Rightarrow> fl list \<Rightarrow> fl list list \<Rightarrow> fl list list \<Rightarrow> fl list list \<Rightarrow> fl list list
     \<Rightarrow> fl list list \<Rightarrow> fl list list \<Rightarrow> error + fl list list" where
  "timecorrections m YAxisRange pplat_s pplon_s pplat_p pplon_p raylength_s raylength_p =
     mapE (timecorrection_row m YAxisRange pplat_s pplon_s pplat_p pplon_p
             raylength_s raylength_p)
          [0..<length raylength_p]"

definition psrf_3D_migration ::
  "fl list list \<Rightarrow> fl list list \<Rightarrow> fl list list \<Rightarrow> fl list list \<Rightarrow> fl list list
     \<Rightarrow> fl list list \<Rightarrow> fl list list \<Rightarrow> fl list \<Rightarrow> mod3d_pert \<Rightarrow> error + fl list list" where
  "psrf_3D_migration pplat_s pplon_s pplat_p pplon_p raylength_s raylength_p Tpds
       YAxisRange mod3d =
     bindE (timecorrections mod3d YAxisRange pplat_s pplon_s pplat_p pplon_p
              raylength_s raylength_p)
           (\<lambda>tc. bc_rows fadd Tpds tc)"

subsection \<open>Notions for the properties of the migration corrector\<close>

text \<open>
  \<open>bget xs k\<close> reads a broadcast operand at index \<open>k\<close>.  \<open>leg_term\<close> and \<open>delta_t\<close>
  are the per-sample terms of the correction,
  \<open>\<Delta>t = L\<^sub>s/(v\<^sub>s (1 + dv\<^sub>s)) - L\<^sub>s/v\<^sub>s - (L\<^sub>p/(v\<^sub>p (1 + dv\<^sub>p)) - L\<^sub>p/v\<^sub>p)\<close>.
  \<open>rect ev n A\<close>: the array \<open>A\<close> has \<open>ev\<close> rows of length \<open>n\<close>.  \<open>queried_p\<close> are the
  points at which the perturbation field is read for event \<open>i\<close>.  \<open>const_pert\<close> is a
  perturbation model that returns the same two perturbations at every point.
\<close>

definition bget :: "fl list \<Rightarrow> nat \<Rightarrow> fl" where
  "bget xs k = (if length xs = 1 then hd xs else xs ! k)"

definition leg_term :: "fl \<Rightarrow> fl \<Rightarrow> fl \<Rightarrow> fl" where
  "leg_term l v dv = fsub (fdiv l (fmul v (fadd (Fin 1) dv))) (fdiv l v)"

definition delta_t :: "fl \<Rightarrow> fl \<Rightarrow> fl \<Rightarrow> fl \<Rightarrow> fl \<Rightarrow> fl \<Rightarrow> fl" where
  "delta_t ls vs dvs lp vp dvp = fsub (leg_term ls vs dvs) (leg_term lp vp dvp)"

definition rect :: "nat \<Rightarrow> nat \<Rightarrow> 'a list list \<Rightarrow> bool" where
  "rect ev n A \<longleftrightarrow> length A = ev \<and> list_all (\<lambda>r. length r = n) A"

definition migration_shapes ::
  "nat \<Rightarrow> nat \<Rightarrow> mod3d_pert \<Rightarrow> fl list \<Rightarrow> fl list list \<Rightarrow> fl list list \<Rightarrow> fl list list
     \<Rightarrow> fl list list \<Rightarrow> fl list list \<Rightarrow> fl list list \<Rightarrow> bool" where
  "migration_shapes ev n m YAxisRange pplat_s pplon_s pplat_p pplon_p raylength_s raylength_p \<longleftrightarrow>
     length YAxisRange = n \<and> rect ev n pplat_s \<and> rect ev n pplon_s \<and> rect ev n pplat_p
     \<and> rect ev n pplon_p \<and> rect ev n raylength_s \<and> rect ev n raylength_p
     \<and> (length (cvs m) = n \<or> length (cvs m) = 1)
     \<and> (length (cvp m) = n \<or> length (cvp m) = 1)"

definition queried_p :: "fl list \<Rightarrow> fl list list \<Rightarrow> fl list list \<Rightarrow> nat \<Rightarrow> (fl \<times> fl \<times> fl) list" where
  "queried_p YAxisRange pplat pplon i = zip YAxisRange (zip (pplat ! i) (pplon ! i))"

definition const_pert :: "fl \<Rightarrow> fl \<Rightarrow> fl list \<Rightarrow> fl list \<Rightarrow> mod3d_pert" where
  "const_pert dp ds vp vs =
     \<lparr>interpdvp = map (\<lambda>_. dp), interpdvs = map (\<lambda>_. ds), cvp = vp, cvs = vs\<rparr>"

section \<open>\<^verbatim>\<open>scipy.interpolate.interp1d\<close>, linear\<close>

text \<open>
  \<^verbatim>\<open>interp1d(x, y, bounds_error=..., fill_value=(below, above))(x_new)\<close> for
  one-dimensional \<open>x\<close> and \<open>y\<close> of real values, as SciPy computes it:
  \<^item> \<open>x\<close> and \<open>y\<close> of different lengths, or empty, raise \<^verbatim>\<open>ValueError\<close>;
  \<^item> the points are sorted by \<open>x\<close> with a stable sort (NaN last);
  \<^item> the values at all queries are computed by \<^verbatim>\<open>np.interp(x_new, x, y)\<close>;
  \<^item> with \<^verbatim>\<open>bounds_error\<close> set (SciPy's default when the argument is left out), a
    query below \<open>x[0]\<close> or above \<open>x[-1]\<close> raises \<^verbatim>\<open>ValueError\<close>;
  \<^item> otherwise the value at a query below \<open>x[0]\<close> is replaced by the first fill
    value, the value at a query above \<open>x[-1]\<close> by the second (both NaN when
    \<^verbatim>\<open>fill_value\<close> is left out).

  \<^verbatim>\<open>np.interp\<close> is NumPy's \<^verbatim>\<open>arr_interp\<close>.  With one point, every query gets that
  point's value.  Otherwise the queries are answered from left to right; a NaN query
  yields NaN; any other query \<open>q\<close> is located by \<^verbatim>\<open>binary_search_with_guess\<close>, which
  starts from the index found for the previous query, and the index \<open>j\<close> it returns
  decides the value: \<open>y[0]\<close> for \<open>-1\<close>, \<open>y[-1]\<close> for the length and for the last index,
  \<open>y[j]\<close> when \<open>x[j] = q\<close>, and \<open>slope * (q - x[j]) + y[j]\<close> otherwise (tried from the
  other end of the segment when that is NaN).
\<close>

definition sort_rank :: "fl \<Rightarrow> nat \<times> real" where
  "sort_rank x = (case x of NInf \<Rightarrow> (0, 0) | Fin r \<Rightarrow> (1, r) | PInf \<Rightarrow> (2, 0) | NaN \<Rightarrow> (3, 0))"

definition argsort_pairs :: "fl list \<Rightarrow> fl list \<Rightarrow> (fl \<times> fl) list" where
  "argsort_pairs x y = sort_key (\<lambda>p. sort_rank (fst p)) (zip x y)"

text \<open>
  \<^verbatim>\<open>
  for (i = 1; i < len && key >= arr[i]; i++);
  return i - 1;
  \<close>
\<close>

definition linear_search :: "fl \<Rightarrow> fl list \<Rightarrow> int" where
  "linear_search key arr = int (length (takeWhile (\<lambda>a. fle a key) (tl arr)))"

text \<open>
  \<^verbatim>\<open>
  while (imin < imax) {
      const npy_intp imid = imin + ((imax - imin) >> 1);
      if (key >= arr[imid]) { imin = imid + 1; }
      else { imax = imid; }
  }
  \<close>
  The value is \<open>imin\<close> after the loop.
\<close>

function bisect :: "fl \<Rightarrow> fl list \<Rightarrow> nat \<Rightarrow> nat \<Rightarrow> nat" where
  "bisect key arr imin imax =
     (if imin < imax then
        (if fle (arr ! (imin + (imax - imin) div 2)) key
         then bisect key arr (imin + (imax - imin) div 2 + 1) imax
         else bisect key arr imin (imin + (imax - imin) div 2))
      else imin)"
  by pat_completeness auto

termination
  by (relation "measure (\<lambda>(key, arr, imin, imax). imax - imin)") auto

text \<open>
  \<^verbatim>\<open>binary_search_with_guess(key, arr, len, guess)\<close>: keys outside the range of the
  array first, a linear search on an array of at most four entries, else the entries
  around the guess (clamped to \<open>1 .. len - 3\<close>), else bisection, within eight entries
  of the guess if the key lies there.
\<close>

definition binary_search_with_guess :: "fl \<Rightarrow> fl list \<Rightarrow> int \<Rightarrow> int" where
  "binary_search_with_guess key arr guess0 =
     (let len = length arr in
      if flt (arr ! (len - 1)) key then int len
      else if flt key (arr ! 0) then - 1
      else if len \<le> 4 then linear_search key arr
      else
        let guess = nat (max 1 (min guess0 (int len - 3))) in
        if flt key (arr ! guess) then
          if flt key (arr ! (guess - 1)) then
            int (bisect key arr
                   (if 8 < guess \<and> fle (arr ! (guess - 8)) key then guess - 8 else 0)
                   (guess - 1)) - 1
          else int guess - 1
        else if flt key (arr ! (guess + 1)) then int guess
        else if flt key (arr ! (guess + 2)) then int guess + 1
        else
          int (bisect key arr (guess + 2)
                 (if guess + 9 < len \<and> flt key (arr ! (guess + 8)) then guess + 8 else len))
          - 1)"

definition interp_segment :: "fl \<Rightarrow> fl \<Rightarrow> fl \<Rightarrow> fl \<Rightarrow> fl \<Rightarrow> fl" where
  "interp_segment x0 y0 x1 y1 q =
     (let slope = fdiv (fsub y1 y0) (fsub x1 x0);
          r = fadd (fmul slope (fsub q x0)) y0
      in if \<not> isnan r then r
         else let r' = fadd (fmul slope (fsub q x1)) y1
              in if isnan r' \<and> feq y0 y1 then y0 else r')"

definition interp_value :: "fl list \<Rightarrow> fl list \<Rightarrow> int \<Rightarrow> fl \<Rightarrow> fl" where
  "interp_value dx dy j x_val =
     (if j = - 1 then hd dy
      else if j = int (length dx) then last dy
      else if j = int (length dx) - 1 then dy ! nat j
      else if feq (dx ! nat j) x_val then dy ! nat j
      else interp_segment (dx ! nat j) (dy ! nat j) (dx ! (nat j + 1)) (dy ! (nat j + 1))
             x_val)"

fun interp_loop :: "fl list \<Rightarrow> fl list \<Rightarrow> int \<Rightarrow> fl list \<Rightarrow> fl list" where
  "interp_loop dx dy j [] = []"
| "interp_loop dx dy j (x_val # dz) =
     (if isnan x_val then x_val # interp_loop dx dy j dz
      else interp_value dx dy (binary_search_with_guess x_val dx j) x_val
           # interp_loop dx dy (binary_search_with_guess x_val dx j) dz)"

definition np_interp :: "fl list \<Rightarrow> fl list \<Rightarrow> fl list \<Rightarrow> fl list" where
  "np_interp x xp fp =
     (if length xp = 1 then map (\<lambda>_. hd fp) x else interp_loop xp fp 0 x)"

definition interp1d ::
  "fl list \<Rightarrow> fl list \<Rightarrow> bool \<Rightarrow> fl \<times> fl \<Rightarrow> fl list \<Rightarrow> error + fl list" where
  "interp1d x y bounds_error fill_value x_new =
     (if length x \<noteq> length y then Inl ValueError
      else if x = [] then Inl ValueError
      else
        let pts = argsort_pairs x y; xs = map fst pts; ys = map snd pts;
            lo = hd xs; hi = last xs
        in
        if bounds_error \<and> list_ex (\<lambda>q. flt q lo \<or> flt hi q) x_new then Inl ValueError
        else Inr (map2 (\<lambda>q v. if flt hi q then snd fill_value
                               else if flt q lo then fst fill_value
                               else v)
                       x_new (np_interp x_new xs ys)))"

section \<open>\<^verbatim>\<open>xps_tps_map\<close>\<close>

text \<open>
  The layered velocity model \<^verbatim>\<open>DepModel\<close> is not part of this module.  Its depth grid,
  its elevation-adjusted grid, its elevation and its three curve methods are fields of
  a record; \<open>'p\<close> is the type of a ray parameter (a number, or one per depth).
\<close>

datatype phase = PhaseP | PhaseS

record 'p dep_model =
  depths :: "fl list"
  depths_elev :: "fl list"
  elevation :: fl
  radius_s :: "'p \<Rightarrow> phase \<Rightarrow> bool \<Rightarrow> fl list"
  raylength :: "'p \<Rightarrow> phase \<Rightarrow> bool \<Rightarrow> fl list"
  tpds :: "'p \<Rightarrow> 'p \<Rightarrow> bool \<Rightarrow> fl list"

text \<open>\<^verbatim>\<open>a[-1]\<close>.\<close>

definition last_elem :: "'a list \<Rightarrow> error + 'a" where
  "last_elem a = (if a = [] then Inl IndexError else Inr (last a))"

text \<open>
  \<^verbatim>\<open>interp1d(dep_mod.depths_elev, c, bounds_error=False,
           fill_value=(np.nan, c[-1]))(dep_mod.depths)\<close>
\<close>

definition reinterp :: "('p, 'z) dep_model_scheme \<Rightarrow> fl list \<Rightarrow> error + fl list" where
  "reinterp dm c =
     bindE (last_elem c) (\<lambda>l. interp1d (depths_elev dm) c False (NaN, l) (depths dm))"

text \<open>
  \<^verbatim>\<open>
  def xps_tps_map(dep_mod, srayp, prayp, is_raylen=False, sphere=True):
      x_s = dep_mod.radius_s(prayp, phase='S', sphere=sphere)
      x_p = dep_mod.radius_s(prayp, phase='P', sphere=sphere)
      if is_raylen:
          raylength_s = dep_mod.raylength(srayp, phase='S', sphere=sphere)
          raylength_p = dep_mod.raylength(prayp, phase='P', sphere=sphere)
      tps = dep_mod.tpds(srayp, prayp, sphere=sphere)
      if dep_mod.elevation != 0:
          x_s = interp1d(dep_mod.depths_elev, x_s, bounds_error=False,
                         fill_value=(np.nan, x_s[-1]))(dep_mod.depths)
          ... the same for x_p, tps and, if is_raylen, raylength_s, raylength_p
      if is_raylen:
          return tps, x_s, x_p, raylength_s, raylength_p
      else:
          return tps, x_s, x_p
  \<close>
  The two ray lengths are present in the result exactly when \<^verbatim>\<open>is_raylen\<close> is set.
\<close>

definition xps_tps_map ::
  "('p, 'z) dep_model_scheme \<Rightarrow> 'p \<Rightarrow> 'p \<Rightarrow> bool \<Rightarrow> bool
     \<Rightarrow> error + (fl list \<times> fl list \<times> fl list \<times> (fl list \<times> fl list) option)" where
  "xps_tps_map dep_mod srayp prayp is_raylen sphere =
     (let x_s = radius_s dep_mod prayp PhaseS sphere;
          x_p = radius_s dep_mod prayp PhaseP sphere;
          rl = (if is_raylen
                then Some (raylength dep_mod srayp PhaseS sphere,
                           raylength dep_mod prayp PhaseP sphere)
                else None);
          tps = tpds dep_mod srayp prayp sphere
      in if \<not> feq (elevation dep_mod) (Fin 0) then
           bindE (reinterp dep_mod x_s) (\<lambda>x_s'.
           bindE (reinterp dep_mod x_p) (\<lambda>x_p'.
           bindE (reinterp dep_mod tps) (\<lambda>tps'.
           case rl of
             None \<Rightarrow> Inr (tps', x_s', x_p', None)
           | Some (raylength_s, raylength_p) \<Rightarrow>
               bindE (reinterp dep_mod raylength_s) (\<lambda>raylength_s'.
               bindE (reinterp dep_mod raylength_p) (\<lambda>raylength_p'.
               Inr (tps', x_s', x_p', Some (raylength_s', raylength_p')))))))
         else Inr (tps, x_s, x_p, rl))"

subsection \<open>Notions for the elevation handling\<close>

text \<open>
  \<open>reinterpolated dm c c'\<close>: \<open>c'\<close> is the curve \<open>c\<close>, given on the elevation-adjusted
  grid, interpolated onto the unadjusted grid \<^verbatim>\<open>dep_mod.depths\<close>; it has one value per
  depth, NaN where the depth lies below the first elevation-adjusted depth, and the
  last value of \<open>c\<close> where the depth lies above the last elevation-adjusted depth.
  \<open>toy_dep_model\<close> is a model with three depths and a station 5 km above sea level.
\<close>

definition reinterpolated :: "('p, 'z) dep_model_scheme \<Rightarrow> fl list \<Rightarrow> fl list \<Rightarrow> bool" where
  "reinterpolated dm c c' \<longleftrightarrow>
     interp1d (depths_elev dm) c False (NaN, last c) (depths dm) = Inr c'
     \<and> length c' = length (depths dm)
     \<and> list_all (\<lambda>k. (flt (depths dm ! k) (hd (depths_elev dm)) \<longrightarrow> c' ! k = NaN)
                    \<and> (flt (last (depths_elev dm)) (depths dm ! k) \<longrightarrow> c' ! k = last c))
          [0..<length (depths dm)]"

definition toy_dep_model :: "fl dep_model" where
  "toy_dep_model =
     \<lparr>depths = [Fin 0, Fin 10, Fin 20],
      depths_elev = [Fin (-5), Fin 5, Fin 15],
      elevation = Fin 5,
      radius_s = (\<lambda>p ph sphere. [Fin 0, Fin 2, Fin 4]),
      raylength = (\<lambda>p ph sphere. [Fin 0, Fin 10, Fin 20]),
      tpds = (\<lambda>s p sphere. [Fin 0, Fin 1, Fin 3])\<rparr>"

section \<open>The station record and the collaborators of the ray tracer\<close>

text \<open>
  \<^verbatim>\<open>RFStation\<close>: the per-event columns of the event list, the station's coordinates
  and elevation, the sampling of the traces, and the amplitude arrays, which the class
  keeps in its attribute dictionary under \<^verbatim>\<open>datar\<close>, \<^verbatim>\<open>datat\<close>, \<^verbatim>\<open>dataz\<close>, ...; \<open>data\<close>
  maps the attribute name to the array, if the attribute exists.  The prime component
  is one of \<^verbatim>\<open>R\<close>, \<^verbatim>\<open>Q\<close>, \<^verbatim>\<open>L\<close>, \<^verbatim>\<open>Z\<close> (the constructor refuses any other).
\<close>

datatype component = CompR | CompQ | CompL | CompZ

record station =
  ev_num :: nat
  rayp :: "fl list"
  bazi :: "fl list"
  dis :: "fl list"
  evdp :: "fl list"
  stla :: fl
  stlo :: fl
  stel :: fl
  sampling :: real
  shift :: real
  rflength :: nat
  time_axis :: "fl list"
  comp_st :: component
  only_r :: bool
  data :: "string \<Rightarrow> fl list list option"

text \<open>
  The functions of \<^verbatim>\<open>seispy.geo\<close> and \<^verbatim>\<open>seispy.psrayp\<close> that the ray tracer calls are
  not part of this module; they are fields of a record.  \<^verbatim>\<open>get_psrayp\<close> reads the
  ray-parameter library (of type \<open>'lib\<close>) at a distance, an event depth and a depth
  grid.  The last field is the platform's conversion of a non-finite double to int64,
  which C leaves undefined.  The three-dimensional velocity model answers \<^verbatim>\<open>interpn\<close>
  on its \<^verbatim>\<open>vs\<close> and \<^verbatim>\<open>vp\<close> grids at a point (depth, latitude, longitude).
\<close>

record 'lib geo =
  srad2skm :: "fl \<Rightarrow> fl"
  skm2srad :: "fl \<Rightarrow> fl"
  sdeg2skm :: "fl \<Rightarrow> fl"
  km2deg :: "fl \<Rightarrow> fl"
  tand :: "fl \<Rightarrow> fl"
  asind :: "fl \<Rightarrow> fl"
  latlon_from :: "fl \<Rightarrow> fl \<Rightarrow> fl \<Rightarrow> fl \<Rightarrow> fl \<times> fl"
  get_psrayp :: "'lib \<Rightarrow> fl \<Rightarrow> fl \<Rightarrow> fl list \<Rightarrow> fl list"
  nonfinite_int64 :: "fl \<Rightarrow> int"

record mod3d_vel =
  interpn_vs :: "fl \<Rightarrow> fl \<Rightarrow> fl \<Rightarrow> fl"
  interpn_vp :: "fl \<Rightarrow> fl \<Rightarrow> fl \<Rightarrow> fl"

text \<open>
  The argument \<^verbatim>\<open>srayp\<close>: \<^verbatim>\<open>None\<close>, a path (with the library \<^verbatim>\<open>np.load\<close> reads from
  it, if the path exists), a loaded library, or anything else.
\<close>

datatype 'lib srayp_arg = SraypNone | SraypPath "'lib option" | SraypLib 'lib | SraypOther

section \<open>\<^verbatim>\<open>psrf_3D_raytracing\<close>\<close>

definition np_diff :: "fl list \<Rightarrow> fl list" where
  "np_diff a = map2 (\<lambda>x y. fsub y x) a (tl a)"

definition np_mean :: "fl list \<Rightarrow> fl" where
  "np_mean a = fdiv (foldl fadd (Fin 0) a) (Fin (real (length a)))"

text \<open>
  \<^verbatim>\<open>a -= z\<close> for an array \<open>a\<close> and a Python number \<open>z\<close> writes \<open>a - z\<close> into \<open>a\<close>.  With
  an int64 array and a float the difference is of dtype float64, which NumPy refuses
  to cast into the int64 array: the statement raises \<^verbatim>\<open>TypeError\<close> (its subclass
  \<^verbatim>\<open>UFuncTypeError\<close>) and nothing is written.
\<close>

definition isub :: "ndarray \<Rightarrow> pynum \<Rightarrow> error + ndarray" where
  "isub a z =
     (case a of
        FloatArr xs \<Rightarrow> Inr (FloatArr (map (\<lambda>x. fsub x (num_val z)) xs))
      | IntArr ks \<Rightarrow>
          (case z of
             PyInt k \<Rightarrow> Inr (IntArr (map (\<lambda>x. x - k) ks))
           | PyFloat _ \<Rightarrow> Inl TypeError))"

text \<open>
  \<^verbatim>\<open>np.zeros_like(a)\<close> has the dtype of \<open>a\<close>.  \<^verbatim>\<open>a[j] = v\<close> for a double \<open>v\<close> stores \<open>v\<close>
  in a float64 array and \<open>v\<close> converted to int64 in an int64 array; \<open>cast_to\<close> is the
  value read back.
\<close>

definition zeros_like :: "ndarray \<Rightarrow> ndarray" where
  "zeros_like a =
     (case a of IntArr ks \<Rightarrow> IntArr (replicate (length ks) 0)
              | FloatArr xs \<Rightarrow> FloatArr (replicate (length xs) (Fin 0)))"

definition to_int64 :: "'lib geo \<Rightarrow> fl \<Rightarrow> int" where
  "to_int64 env v = (case v of Fin a \<Rightarrow> py_int a | _ \<Rightarrow> nonfinite_int64 env v)"

definition setitem :: "'lib geo \<Rightarrow> ndarray \<Rightarrow> nat \<Rightarrow> fl \<Rightarrow> ndarray" where
  "setitem env a j v =
     (case a of IntArr ks \<Rightarrow> IntArr (ks[j := to_int64 env v])
              | FloatArr xs \<Rightarrow> FloatArr (xs[j := v]))"

definition cast_to :: "'lib geo \<Rightarrow> dtype \<Rightarrow> fl \<Rightarrow> fl" where
  "cast_to env dt v = (case dt of Int64 \<Rightarrow> Fin (of_int (to_int64 env v)) | Float64 \<Rightarrow> v)"

text \<open>
  The rows of event \<open>i\<close> that the inner loop fills: conversion-point coordinates and
  horizontal offsets of the two legs (rows of float64 arrays), and the velocities
  sampled along them (arrays of the depth grid's dtype).
\<close>

record legs =
  pplat_s_i :: "fl list"
  pplon_s_i :: "fl list"
  pplat_p_i :: "fl list"
  pplon_p_i :: "fl list"
  x_s_i :: "fl list"
  x_p_i :: "fl list"
  vs_i :: ndarray
  vp_i :: ndarray

text \<open>
  Before the inner loop:
  \<^verbatim>\<open>
  pplat_s[i][0] = pplat_p[i][0] = stadatar.stla
  pplon_s[i][0] = pplon_p[i][0] = stadatar.stlo
  x_s[i][0] = 0
  x_p[i][0] = 0
  vs = np.zeros_like(YAxisRange)
  vp = np.zeros_like(YAxisRange)
  \<close>
  on rows that \<^verbatim>\<open>np.zeros\<close> created.
\<close>

definition legs_init :: "station \<Rightarrow> ndarray \<Rightarrow> legs" where
  "legs_init stadatar YAxisRange =
     \<lparr>pplat_s_i = (replicate (alen YAxisRange) (Fin 0))[0 := stla stadatar],
      pplon_s_i = (replicate (alen YAxisRange) (Fin 0))[0 := stlo stadatar],
      pplat_p_i = (replicate (alen YAxisRange) (Fin 0))[0 := stla stadatar],
      pplon_p_i = (replicate (alen YAxisRange) (Fin 0))[0 := stlo stadatar],
      x_s_i = replicate (alen YAxisRange) (Fin 0),
      x_p_i = replicate (alen YAxisRange) (Fin 0),
      vs_i = zeros_like YAxisRange,
      vp_i = zeros_like YAxisRange\<rparr>"

text \<open>
  One pass of the inner loop, at index \<open>j\<close> with \<open>dep = YAxisRange[j]\<close>:
  \<^verbatim>\<open>
  vs[j] = interpn(..., mod3d.model['vs'], (dep, pplat_s[i, j], pplon_s[i, j]), ...)
  vp[j] = interpn(..., mod3d.model['vp'], (dep, pplat_p[i, j], pplon_p[i, j]), ...)
  x_s[i, j+1] = ddepth*tand(asind(vs[j]*rayps[i])) + x_s[i, j]
  x_p[i, j+1] = ddepth*tand(asind(vp[j]*rayps[i])) + x_p[i, j]
  pplat_s[i, j+1], pplon_s[i, j+1] = latlon_from(stadatar.stla, stadatar.stlo,
                                                 stadatar.bazi[i], km2deg(x_s[i, j+1]))
  pplat_p[i, j+1], pplon_p[i, j+1] = latlon_from(stadatar.stla, stadatar.stlo,
                                                 stadatar.bazi[i], km2deg(x_p[i, j+1]))
  \<close>
  \<open>rayps_i\<close> is \<^verbatim>\<open>rayps[i]\<close>, where \<^verbatim>\<open>rayps = srad2skm(stadatar.rayp)\<close>.  The offsets
  are computed from \<^verbatim>\<open>vs[j]\<close> and \<^verbatim>\<open>vp[j]\<close> as read back from the arrays.
\<close>

definition offset_step :: "'lib geo \<Rightarrow> fl \<Rightarrow> fl \<Rightarrow> fl \<Rightarrow> fl \<Rightarrow> fl" where
  "offset_step env ddepth v p x = fadd (fmul ddepth (tand env (asind env (fmul v p)))) x"

definition trace_step ::
  "'lib geo \<Rightarrow> mod3d_vel \<Rightarrow> station \<Rightarrow> fl \<Rightarrow> fl \<Rightarrow> fl \<Rightarrow> ndarray \<Rightarrow> nat \<Rightarrow> legs \<Rightarrow> legs" where
  "trace_step env mod3d stadatar bazi_i rayps_i ddepth YAxisRange j l =
     (let dep = as_float YAxisRange ! j;
          vs = setitem env (vs_i l) j
                 (interpn_vs mod3d dep (pplat_s_i l ! j) (pplon_s_i l ! j));
          vp = setitem env (vp_i l) j
                 (interpn_vp mod3d dep (pplat_p_i l ! j) (pplon_p_i l ! j));
          xs = offset_step env ddepth (as_float vs ! j) rayps_i (x_s_i l ! j);
          xp = offset_step env ddepth (as_float vp ! j) rayps_i (x_p_i l ! j);
          cs = latlon_from env (stla stadatar) (stlo stadatar) bazi_i (km2deg env xs);
          cp = latlon_from env (stla stadatar) (stlo stadatar) bazi_i (km2deg env xp)
      in \<lparr>pplat_s_i = (pplat_s_i l)[Suc j := fst cs],
          pplon_s_i = (pplon_s_i l)[Suc j := snd cs],
          pplat_p_i = (pplat_p_i l)[Suc j := fst cp],
          pplon_p_i = (pplon_p_i l)[Suc j := snd cp],
          x_s_i = (x_s_i l)[Suc j := xs],
          x_p_i = (x_p_i l)[Suc j := xp],
          vs_i = vs,
          vp_i = vp\<rparr>)"

text \<open>\<^verbatim>\<open>for j, dep in enumerate(YAxisRange[:-1])\<close>, run for the first \<open>k\<close> indices.\<close>

definition trace_upto ::
  "'lib geo \<Rightarrow> mod3d_vel \<Rightarrow> station \<Rightarrow> fl \<Rightarrow> fl \<Rightarrow> fl \<Rightarrow> ndarray \<Rightarrow> nat \<Rightarrow> legs" where
  "trace_upto env mod3d stadatar bazi_i rayps_i ddepth YAxisRange k =
     fold (trace_step env mod3d stadatar bazi_i rayps_i ddepth YAxisRange) [0..<k]
          (legs_init stadatar YAxisRange)"

definition trace_legs ::
  "'lib geo \<Rightarrow> mod3d_vel \<Rightarrow> station \<Rightarrow> fl \<Rightarrow> fl \<Rightarrow> fl \<Rightarrow> ndarray \<Rightarrow> legs" where
  "trace_legs env mod3d stadatar bazi_i rayps_i ddepth YAxisRange =
     trace_upto env mod3d stadatar bazi_i rayps_i ddepth YAxisRange (alen YAxisRange - 1)"

text \<open>
  \<^verbatim>\<open>
  tps_corr = np.cumsum((np.sqrt((R / vs) ** 2 - srayps ** 2) -
                        np.sqrt((R / vp) ** 2 - stadatar.rayp[i] ** 2))
                       * (ddepth / R))
  \<close>
  \<open>R\<close> is an array along the depths when \<^verbatim>\<open>sphere\<close> is set and a scalar otherwise;
  \<open>srayps\<close> is a scalar or an array along the depths.  The division is a division of
  doubles, whatever the dtype of \<^verbatim>\<open>vs\<close> and \<^verbatim>\<open>vp\<close>.
\<close>

definition vslow :: "fl list \<Rightarrow> fl list \<Rightarrow> fl list \<Rightarrow> error + fl list" where
  "vslow R v p =
     bindE (bc fdiv R v) (\<lambda>q.
     bindE (bc fsub (map (\<lambda>x. fmul x x) q) (map (\<lambda>x. fmul x x) p)) (\<lambda>d.
     Inr (map fsqrt d)))"

definition tps_corr_of ::
  "fl list \<Rightarrow> fl list \<Rightarrow> fl list \<Rightarrow> fl list \<Rightarrow> fl \<Rightarrow> fl \<Rightarrow> error + fl list" where
  "tps_corr_of R vs vp srayps rayp_i ddepth =
     bindE (vslow R vs srayps) (\<lambda>ss.
     bindE (vslow R vp [rayp_i]) (\<lambda>sp.
     bindE (bc fsub ss sp) (\<lambda>d.
     bindE (bc fmul d (map (fdiv ddepth) R)) (\<lambda>t.
     Inr (cumsum t)))))"

text \<open>
  The ray parameter of the converted phase for event \<open>i\<close>:
  \<^verbatim>\<open>
  if srayp is None:
      srayps = stadatar.rayp[i]
  else:
      srayps = get_psrayp(rayp_lib, stadatar.dis[i], stadatar.evdp[i], YAxisRange)
      srayps = skm2srad(sdeg2skm(srayps))
  \<close>
\<close>

definition srayps_of ::
  "'lib geo \<Rightarrow> station \<Rightarrow> 'lib option \<Rightarrow> ndarray \<Rightarrow> nat \<Rightarrow> error + fl list" where
  "srayps_of env stadatar rayp_lib YAxisRange i =
     (case rayp_lib of
        None \<Rightarrow> bindE (row (rayp stadatar) i) (\<lambda>p. Inr [p])
      | Some lib \<Rightarrow>
          bindE (row (dis stadatar) i) (\<lambda>d.
          bindE (row (evdp stadatar) i) (\<lambda>h.
          Inr (map (\<lambda>p. skm2srad env (sdeg2skm env p))
                   (get_psrayp env lib d h (as_float YAxisRange))))))"

text \<open>
  The body of the loop over the events.  \<open>YAxisRange\<close> is the grid after the shift by
  the elevation, \<open>dep_range\<close> the copy taken before it.  The last two lines of the body
  are
  \<^verbatim>\<open>
  if elevation != 0:
      tps[i] = interp1d(YAxisRange, tps_corr)(dep_range)
  \<close>
  where \<^verbatim>\<open>interp1d\<close> is called without \<^verbatim>\<open>bounds_error\<close> and \<^verbatim>\<open>fill_value\<close>; otherwise
  row \<open>i\<close> of \<^verbatim>\<open>tps\<close> stays as \<^verbatim>\<open>np.zeros\<close> created it.
\<close>

definition trace_event ::
  "'lib geo \<Rightarrow> mod3d_vel \<Rightarrow> station \<Rightarrow> 'lib option \<Rightarrow> fl list \<Rightarrow> ndarray \<Rightarrow> ndarray \<Rightarrow> fl
     \<Rightarrow> pynum \<Rightarrow> nat \<Rightarrow> error + legs \<times> fl list" where
  "trace_event env mod3d stadatar rayp_lib R YAxisRange dep_range ddepth elev i =
     bindE (srayps_of env stadatar rayp_lib YAxisRange i) (\<lambda>srayps.
     if alen YAxisRange = 0 then Inl IndexError else
     bindE (if 2 \<le> alen YAxisRange
            then bindE (row (map (srad2skm env) (rayp stadatar)) i) (\<lambda>rayps_i.
                 bindE (row (bazi stadatar) i) (\<lambda>bazi_i.
                 Inr (trace_legs env mod3d stadatar bazi_i rayps_i ddepth YAxisRange)))
            else Inr (legs_init stadatar YAxisRange)) (\<lambda>l.
     bindE (row (rayp stadatar) i) (\<lambda>rayp_i.
     bindE (tps_corr_of R (as_float (vs_i l)) (as_float (vp_i l)) srayps rayp_i ddepth)
       (\<lambda>tps_corr.
     bindE (if \<not> feq (num_val elev) (Fin 0)
            then bindE (interp1d (as_float YAxisRange) tps_corr True (NaN, NaN)
                          (as_float dep_range))
                       (assign_row (alen YAxisRange))
            else Inr (replicate (alen YAxisRange) (Fin 0))) (\<lambda>tps_i.
     Inr (l, tps_i))))))"

text \<open>
  \<^verbatim>\<open>
  if isinstance(srayp, str) or isinstance(srayp, np.lib.npyio.NpzFile):
      if isinstance(srayp, str):
          if not exists(srayp):
              raise FileNotFoundError('Ps rayp lib file not found')
          else:
              rayp_lib = np.load(srayp)
      else:
          rayp_lib = srayp
  elif srayp is None:
      pass
  else:
      raise TypeError('srayp should be path to Ps rayp lib')
  \<close>
\<close>

definition load_rayp_lib :: "'lib srayp_arg \<Rightarrow> error + 'lib option" where
  "load_rayp_lib srayp =
     (case srayp of
        SraypPath None \<Rightarrow> Inl FileNotFoundError
      | SraypPath (Some lib) \<Rightarrow> Inr (Some lib)
      | SraypLib lib \<Rightarrow> Inr (Some lib)
      | SraypNone \<Rightarrow> Inr None
      | SraypOther \<Rightarrow> Inl TypeError)"

text \<open>
  \<^verbatim>\<open>
  def psrf_3D_raytracing(stadatar, YAxisRange, mod3d, srayp=None, elevation=0, sphere=True):
      if sphere:
          R = 6371.0 - YAxisRange + elevation
      else:
          R = 6371.0 + elevation
      dep_range = YAxisRange.copy()
      YAxisRange -= elevation
      ddepth = np.mean(np.diff(YAxisRange))
      ...
      return pplat_s, pplon_s, pplat_p, pplon_p, tps
  \<close>
  \<^verbatim>\<open>YAxisRange -= elevation\<close> writes into the caller's array.  The model returns the
  caller's array as the call leaves it, whether the call returns or raises, together
  with the result.  The argument \<^verbatim>\<open>elevation\<close> is \<open>elev\<close> here (the velocity model has a
  field of that name).
\<close>

definition psrf_3D_raytracing ::
  "'lib geo \<Rightarrow> station \<Rightarrow> ndarray \<Rightarrow> mod3d_vel \<Rightarrow> 'lib srayp_arg \<Rightarrow> pynum \<Rightarrow> bool
     \<Rightarrow> ndarray \<times> (error + fl list list \<times> fl list list \<times> fl list list \<times> fl list list
                              \<times> fl list list)" where
  "psrf_3D_raytracing env stadatar YAxisRange mod3d srayp elev sphere =
     (let R = (if sphere
               then map (\<lambda>d. fadd (fsub (Fin 6371) d) (num_val elev)) (as_float YAxisRange)
               else [fadd (Fin 6371) (num_val elev)]);
          dep_range = YAxisRange
      in case isub YAxisRange elev of
           Inl e \<Rightarrow> (YAxisRange, Inl e)
         | Inr YAxisRange' \<Rightarrow>
             (let ddepth = np_mean (np_diff (as_float YAxisRange'))
              in (YAxisRange',
                  bindE (load_rayp_lib srayp) (\<lambda>rayp_lib.
                  bindE (mapE (trace_event env mod3d stadatar rayp_lib R YAxisRange'
                                 dep_range ddepth elev)
                              [0..<ev_num stadatar]) (\<lambda>evs.
                  Inr (map (\<lambda>e. pplat_s_i (fst e)) evs, map (\<lambda>e. pplon_s_i (fst e)) evs,
                       map (\<lambda>e. pplat_p_i (fst e)) evs, map (\<lambda>e. pplon_p_i (fst e)) evs,
                       map snd evs))))))"

subsection \<open>Notions for the properties of the ray tracer\<close>

text \<open>
  For evaluation: \<open>toy_geo\<close> stands in for \<^verbatim>\<open>seispy.geo\<close> with small angles (the
  tangent and the arc sine are the identity), identity unit conversions, a conversion
  point that lies the angular distance north of the station, a ray-parameter library
  that holds one ray parameter, and the conversion of a non-finite double to int64 of
  x86-64; \<open>toy_mod3d\<close> has \<open>v\<^sub>s = 1\<close> and \<open>v\<^sub>p = 2\<close> everywhere, \<open>toy_mod3d_frac\<close> has
  \<open>v\<^sub>s = 7/2\<close> and \<open>v\<^sub>p = 13/2\<close>; \<open>toy_station\<close> has one event with ray parameter \<open>1/10\<close>;
  \<open>toy_grid\<close> has the depths 0, 10, 20 as doubles and \<open>toy_grid_int\<close> has them as
  integers; \<open>toy_legs\<close> are the rows the tracer computes from \<open>toy_mod3d\<close> on
  \<open>toy_grid\<close>, and \<open>toy_legs_int\<close> those it computes from \<open>toy_mod3d_frac\<close> on
  \<open>toy_grid_int\<close>.

  \<open>is_fin\<close>: a double is finite, \<open>fin_val\<close> its value.  \<open>advanced ... p ddepth ... l j\<close>:
  in the rows \<open>l\<close>, step \<open>j\<close> sampled each leg's velocity at that leg's conversion point
  at depth \<open>YAxisRange[j]\<close> and stored it in an array of the grid's dtype, advanced each
  leg's offset by \<open>ddepth * tand (asind (v * p))\<close> with the stored velocity \<open>v\<close> and the
  one ray parameter \<open>p\<close>, and projected the new offsets to the new conversion points.
  \<open>legs_len YAxisRange l\<close>: every row has the length of the grid, and the velocity
  arrays have its dtype.
\<close>

definition toy_geo :: "fl geo" where
  "toy_geo =
     \<lparr>srad2skm = (\<lambda>p. p), skm2srad = (\<lambda>p. p), sdeg2skm = (\<lambda>p. p), km2deg = (\<lambda>x. x),
      tand = (\<lambda>a. a), asind = (\<lambda>x. x),
      latlon_from = (\<lambda>lat lon baz d. (fadd lat d, lon)),
      get_psrayp = (\<lambda>lib d h deps. map (\<lambda>_. lib) deps),
      nonfinite_int64 = (\<lambda>v. - 9223372036854775808)\<rparr>"

definition toy_mod3d :: mod3d_vel where
  "toy_mod3d = \<lparr>interpn_vs = (\<lambda>d lat lon. Fin 1), interpn_vp = (\<lambda>d lat lon. Fin 2)\<rparr>"

definition toy_mod3d_frac :: mod3d_vel where
  "toy_mod3d_frac =
     \<lparr>interpn_vs = (\<lambda>d lat lon. Fin (7/2)), interpn_vp = (\<lambda>d lat lon. Fin (13/2))\<rparr>"

definition toy_station :: station where
  "toy_station =
     \<lparr>ev_num = 1, rayp = [Fin (1/10)], bazi = [Fin 0], dis = [Fin 60], evdp = [Fin 10],
      stla = Fin 0, stlo = Fin 0, stel = Fin 0, sampling = 1, shift = 2, rflength = 6,
      time_axis = [Fin (-2), Fin (-1), Fin 0, Fin 1, Fin 2, Fin 3], comp_st = CompR, only_r = True,
      data = (\<lambda>name. if name = ''datar'' then Some [[Fin 0, Fin 0, Fin 1, Fin 2, Fin 1, Fin 0]]
                       else None)\<rparr>"

definition toy_grid :: "fl list" where
  "toy_grid = [Fin 0, Fin 10, Fin 20]"

definition toy_grid_int :: ndarray where
  "toy_grid_int = IntArr [0, 10, 20]"

definition toy_legs :: legs where
  "toy_legs =
     \<lparr>pplat_s_i = [Fin 0, Fin 1, Fin 2], pplon_s_i = [Fin 0, Fin 0, Fin 0],
      pplat_p_i = [Fin 0, Fin 2, Fin 4], pplon_p_i = [Fin 0, Fin 0, Fin 0],
      x_s_i = [Fin 0, Fin 1, Fin 2], x_p_i = [Fin 0, Fin 2, Fin 4],
      vs_i = FloatArr [Fin 1, Fin 1, Fin 0], vp_i = FloatArr [Fin 2, Fin 2, Fin 0]\<rparr>"

definition toy_legs_int :: legs where
  "toy_legs_int =
     \<lparr>pplat_s_i = [Fin 0, Fin 3, Fin 6], pplon_s_i = [Fin 0, Fin 0, Fin 0],
      pplat_p_i = [Fin 0, Fin 6, Fin 12], pplon_p_i = [Fin 0, Fin 0, Fin 0],
      x_s_i = [Fin 0, Fin 3, Fin 6], x_p_i = [Fin 0, Fin 6, Fin 12],
      vs_i = IntArr [3, 3, 0], vp_i = IntArr [6, 6, 0]\<rparr>"

fun is_fin :: "fl \<Rightarrow> bool" where
  "is_fin (Fin a) = True"
| "is_fin _ = False"

fun fin_val :: "fl \<Rightarrow> real" where
  "fin_val (Fin a) = a"
| "fin_val _ = 0"



section \<open>\<^verbatim>\<open>RFStation.normalize\<close>\<close>

text \<open>
  \<^verbatim>\<open>
  def normalize(self, method='single'):
      if not isinstance(method, str):
          raise TypeError(...)
      if method == 'single':
          maxamp = np.nanmax(np.abs(self.__dict__['data{}'.format(self.comp.lower())]), axis=1)
      elif method == 'average':
          amp = np.nanmax(np.abs(np.mean(self.__dict__['data{}'.format(self.comp.lower())], axis=0)))
          maxamp = np.ones(self.ev_num) * amp
      else:
          raise ValueError(...)
      for i in range(self.ev_num):
          self.__dict__['data{}'.format(self.comp.lower())][i] /= maxamp[i]
          if not self.only_r:
              self.datat[i] /= maxamp[i]
  \<close>
  The method is a string here, so the \<^verbatim>\<open>TypeError\<close> cannot arise.  The method is
  checked before the data are looked up.
\<close>

fun fabs :: "fl \<Rightarrow> fl" where
  "fabs (Fin a) = Fin \<bar>a\<bar>"
| "fabs PInf = PInf"
| "fabs NInf = PInf"
| "fabs NaN = NaN"

definition fmax_nan :: "fl \<Rightarrow> fl \<Rightarrow> fl" where
  "fmax_nan a b = (if isnan a then b else if isnan b then a else if flt a b then b else a)"

definition nanmax :: "fl list \<Rightarrow> error + fl" where
  "nanmax a = (case a of [] \<Rightarrow> Inl ValueError | x # r \<Rightarrow> Inr (foldl fmax_nan x r))"

definition mean_axis0 :: "fl list list \<Rightarrow> nat \<Rightarrow> fl list" where
  "mean_axis0 A ncol = map (\<lambda>k. np_mean (map (\<lambda>r. r ! k) A)) [0..<ncol]"

definition data_key :: "component \<Rightarrow> string" where
  "data_key c = (case c of CompR \<Rightarrow> ''datar'' | CompQ \<Rightarrow> ''dataq''
                          | CompL \<Rightarrow> ''datal'' | CompZ \<Rightarrow> ''dataz'')"

definition prime_data :: "station \<Rightarrow> error + fl list list" where
  "prime_data stadatar =
     (case data stadatar (data_key (comp_st stadatar)) of
        None \<Rightarrow> Inl KeyError | Some d \<Rightarrow> Inr d)"

text \<open>
  \<^verbatim>\<open>a[i] /= maxamp[i]\<close> reads row \<open>i\<close> of \<open>a\<close>, then \<open>maxamp[i]\<close>, and stores the
  quotient.  The loop does so for the prime component and, unless \<^verbatim>\<open>only_r\<close> is set,
  for the attribute \<^verbatim>\<open>datat\<close>, event by event.
\<close>

definition scale_at :: "fl list list \<Rightarrow> fl list \<Rightarrow> nat \<Rightarrow> error + fl list list" where
  "scale_at a maxamp i =
     bindE (row a i) (\<lambda>r.
     bindE (row maxamp i) (\<lambda>m.
     Inr (a[i := map (\<lambda>x. fdiv x m) r])))"

fun scale_loop ::
  "bool \<Rightarrow> fl list \<Rightarrow> nat list \<Rightarrow> fl list list \<Rightarrow> fl list list option
     \<Rightarrow> error + fl list list \<times> fl list list option" where
  "scale_loop r_only maxamp [] d t = Inr (d, t)"
| "scale_loop r_only maxamp (i # rest) d t =
     bindE (scale_at d maxamp i) (\<lambda>d'.
     if r_only then scale_loop r_only maxamp rest d' t
     else (case t of
             None \<Rightarrow> Inl AttributeError
           | Some tt \<Rightarrow>
               bindE (scale_at tt maxamp i) (\<lambda>tt'.
               scale_loop r_only maxamp rest d' (Some tt'))))"

definition normalize :: "string \<Rightarrow> station \<Rightarrow> error + station" where
  "normalize method stadatar =
     bindE (if method = ''single'' then
              bindE (prime_data stadatar) (\<lambda>d. mapE (\<lambda>r. nanmax (map fabs r)) d)
            else if method = ''average'' then
              bindE (prime_data stadatar) (\<lambda>d.
              bindE (nanmax (map fabs (mean_axis0 d (rflength stadatar)))) (\<lambda>amp.
              Inr (replicate (ev_num stadatar) amp)))
            else Inl ValueError) (\<lambda>maxamp.
     bindE (prime_data stadatar) (\<lambda>d.
     bindE (scale_loop (only_r stadatar) maxamp [0..<ev_num stadatar] d
              (data stadatar ''datat'')) (\<lambda>(d', t').
     Inr (stadatar\<lparr>data := (data stadatar)(''datat'' := t',
                                              data_key (comp_st stadatar) \<mapsto> d')\<rparr>))))"

section \<open>\<^verbatim>\<open>time2depth\<close>\<close>

text \<open>
  The travel-time array \<^verbatim>\<open>Tpds\<close> may be complex: its elements are of type \<open>cnum\<close>, a
  float64 array being one whose imaginary parts are all zero.

  \<^verbatim>\<open>
  TempTpds = Tpds[i, :]
  StopIndex = np.where(np.imag(TempTpds) == 1)[0]
  if StopIndex.size == 0:
      EndIndex[i] = YAxisRange.size - 1
      DepthAxis = interp1d(TempTpds, YAxisRange, bounds_error=False)(stadatar.time_axis)
  else:
      EndIndex[i] = StopIndex[0] - 1
      DepthAxis = interp1d(TempTpds[0:StopIndex], YAxisRange[0: StopIndex],
                           bounds_error=False)(stadatar.time_axis)
  \<close>
  In the second branch the slices are bounded by the array \<^verbatim>\<open>StopIndex\<close>, not by its
  first element; an array with a dimension is not an index, and the slicing raises
  \<^verbatim>\<open>TypeError\<close>.  In the first branch a curve with a non-zero imaginary part that
  is not one would be interpolated over complex numbers, which is \<open>Unmodelled\<close>.
\<close>

definition depth_axis :: "cnum list \<Rightarrow> fl list \<Rightarrow> fl list \<Rightarrow> error + int \<times> fl list" where
  "depth_axis TempTpds YAxisRange t_axis =
     (let StopIndex = np_where (imag_is_one TempTpds) in
      if StopIndex = [] then
        if list_all (\<lambda>v. im_part v = Fin 0) TempTpds then
          bindE (interp1d (map re_part TempTpds) YAxisRange False (NaN, NaN) t_axis)
                (\<lambda>DepthAxis. Inr (int (length YAxisRange) - 1, DepthAxis))
        else Inl Unmodelled
      else Inl TypeError)"

text \<open>\<^verbatim>\<open>a[idx]\<close> for an array of indices.\<close>

definition take_idx :: "'a list \<Rightarrow> nat list \<Rightarrow> error + 'a list" where
  "take_idx a idx = mapE (row a) idx"

text \<open>
  \<^verbatim>\<open>
  PS_RFTempAmps = stadatar.__dict__['data{}'.format(stadatar.comp.lower())][i]
  ValueIndices = np.where(np.logical_not(np.isnan(DepthAxis)))[0]
  if ValueIndices.size == 0:
      continue
  elif np.max(ValueIndices) > PS_RFTempAmps.shape[0]:
      continue
  else:
      PS_RFAmps = interp1d(DepthAxis[ValueIndices], PS_RFTempAmps[ValueIndices],
                           bounds_error=False)(YAxisRange)
      PS_RFdepth[i] = PS_RFAmps
  \<close>
  \<^verbatim>\<open>continue\<close> leaves row \<open>i\<close> of \<^verbatim>\<open>PS_RFdepth\<close> as \<^verbatim>\<open>np.zeros\<close> created it.
\<close>

definition depth_row :: "fl list \<Rightarrow> fl list \<Rightarrow> fl list \<Rightarrow> error + fl list" where
  "depth_row DepthAxis PS_RFTempAmps YAxisRange =
     (let ValueIndices = np_where (map (\<lambda>d. \<not> isnan d) DepthAxis) in
      if ValueIndices = [] then Inr (replicate (length YAxisRange) (Fin 0))
      else if fold max ValueIndices 0 > length PS_RFTempAmps
      then Inr (replicate (length YAxisRange) (Fin 0))
      else
        bindE (take_idx DepthAxis ValueIndices) (\<lambda>xs.
        bindE (take_idx PS_RFTempAmps ValueIndices) (\<lambda>ys.
        bindE (interp1d xs ys False (NaN, NaN) YAxisRange) (\<lambda>PS_RFAmps.
        assign_row (length YAxisRange) PS_RFAmps))))"

definition time2depth_event ::
  "station \<Rightarrow> fl list \<Rightarrow> cnum list list \<Rightarrow> nat \<Rightarrow> error + fl list \<times> int" where
  "time2depth_event stadatar YAxisRange Tpds i =
     bindE (row Tpds i) (\<lambda>TempTpds.
     bindE (depth_axis TempTpds YAxisRange (time_axis stadatar)) (\<lambda>(EndIndex_i, DepthAxis).
     bindE (prime_data stadatar) (\<lambda>d.
     bindE (row d i) (\<lambda>PS_RFTempAmps.
     bindE (depth_row DepthAxis PS_RFTempAmps YAxisRange) (\<lambda>r.
     Inr (r, EndIndex_i))))))"

text \<open>
  \<^verbatim>\<open>
  def time2depth(stadatar, YAxisRange, Tpds, normalize='single'):
      if normalize:
          stadatar.normalize(method=normalize)
      PS_RFdepth = np.zeros([stadatar.ev_num, YAxisRange.shape[0]])
      EndIndex = np.zeros(stadatar.ev_num)
      for i in range(stadatar.ev_num):
          ...
      return PS_RFdepth, EndIndex
  \<close>
  \<^verbatim>\<open>normalize\<close> is \<^verbatim>\<open>None\<close> or a string; the empty string is false as \<^verbatim>\<open>None\<close> is.
\<close>

definition time2depth ::
  "station \<Rightarrow> fl list \<Rightarrow> cnum list list \<Rightarrow> string option
     \<Rightarrow> error + fl list list \<times> int list" where
  "time2depth stadatar YAxisRange Tpds normalize_arg =
     bindE (case normalize_arg of
              None \<Rightarrow> Inr stadatar
            | Some method \<Rightarrow> if method = [] then Inr stadatar else normalize method stadatar)
       (\<lambda>sta.
     bindE (mapE (time2depth_event sta YAxisRange Tpds) [0..<ev_num sta]) (\<lambda>rows.
     Inr (map fst rows, map snd rows)))"

subsection \<open>Notions for the properties of the time-to-depth conversion\<close>

text \<open>
  \<open>evanescent_curve\<close> is a travel-time curve over \<open>toy_grid\<close> whose every sample,
  the one at depth index 0 included, carries the imaginary part 1 that the code
  tests for.
\<close>

definition evanescent_curve :: "cnum list" where
  "evanescent_curve =
     [\<lparr>re_part = Fin 0, im_part = Fin 1\<rparr>, \<lparr>re_part = Fin 1, im_part = Fin 1\<rparr>,
      \<lparr>re_part = Fin 2, im_part = Fin 1\<rparr>]"

section \<open>\<^verbatim>\<open>moveoutcorrect_ref\<close>\<close>



text \<open>
  \<^verbatim>\<open>np.arange(start, stop, step)\<close> on Python floats: \<open>\<lceil>(stop - start) / step\<rceil>\<close> values
  from \<open>start\<close> in steps of \<open>step\<close>; a zero step divides by zero.  \<^verbatim>\<open>a[k]\<close> with a
  negative \<open>k\<close> counts from the end.
\<close>

definition np_arange :: "real \<Rightarrow> real \<Rightarrow> real \<Rightarrow> error + fl list" where
  "np_arange start stop step =
     (if step = 0 then Inl ZeroDivisionError
      else Inr (map (\<lambda>k. Fin (start + real k * step)) [0..<nat \<lceil>(stop - start) / step\<rceil>]))"

definition py_get :: "'a list \<Rightarrow> int \<Rightarrow> error + 'a" where
  "py_get a k =
     (if 0 \<le> k \<and> k < int (length a) then Inr (a ! nat k)
      else if k < 0 \<and> - int (length a) \<le> k then Inr (a ! nat (int (length a) + k))
      else Inl IndexError)"

text \<open>
  Inside the loop over the sample index \<open>j\<close>:
  \<^verbatim>\<open>
  Refaxis = j * sampling - shift
  index = np.where(Refaxis <= tps[i, 0:StopIndex])[0]
  if index.size == 0:
      break
  Ratio = (Tpds_ref[index[0]] - Tpds_ref[index[0] - 1])
          / (tps[i, index[0]] - tps[i, index[0] - 1])
  Newaxis = np.append(Newaxis, Tpds_ref[index[0] - 1]
                               + (Refaxis - tps[i, index[0] - 1]) * Ratio)
  \<close>
\<close>

definition refaxis :: "station \<Rightarrow> int \<Rightarrow> fl" where
  "refaxis stadatar j = Fin (real_of_int j * sampling stadatar - shift stadatar)"

definition crossing :: "fl \<Rightarrow> fl list \<Rightarrow> nat \<Rightarrow> nat list" where
  "crossing Refaxis tps_i StopIndex =
     np_where (map (\<lambda>t. fle Refaxis t) (take StopIndex tps_i))"

definition new_sample :: "fl \<Rightarrow> fl list \<Rightarrow> fl list \<Rightarrow> nat \<Rightarrow> error + fl" where
  "new_sample Refaxis tps_i Tpds_ref k =
     bindE (py_get Tpds_ref (int k)) (\<lambda>r1.
     bindE (py_get Tpds_ref (int k - 1)) (\<lambda>r0.
     bindE (py_get tps_i (int k)) (\<lambda>t1.
     bindE (py_get tps_i (int k - 1)) (\<lambda>t0.
     let Ratio = fdiv (fsub r1 r0) (fsub t1 t0)
     in Inr (fadd r0 (fmul (fsub Refaxis t0) Ratio))))))"

fun newaxis_loop ::
  "station \<Rightarrow> fl list \<Rightarrow> fl list \<Rightarrow> nat \<Rightarrow> int list \<Rightarrow> fl list \<Rightarrow> error + fl list" where
  "newaxis_loop stadatar tps_i Tpds_ref StopIndex [] Newaxis = Inr Newaxis"
| "newaxis_loop stadatar tps_i Tpds_ref StopIndex (j # js) Newaxis =
     (let index = crossing (refaxis stadatar j) tps_i StopIndex in
      if index = [] then Inr Newaxis
      else bindE (new_sample (refaxis stadatar j) tps_i Tpds_ref (hd index)) (\<lambda>v.
           newaxis_loop stadatar tps_i Tpds_ref StopIndex js (Newaxis @ [v])))"

text \<open>
  \<^verbatim>\<open>Newaxis = np.append(Newaxis, np.append(np.arange(-shift, 0, sampling), 0))\<close> and
  \<^verbatim>\<open>for j in np.arange(int(shift / sampling + 1), stadatar.rflength)\<close>.
\<close>

definition newaxis_start :: "station \<Rightarrow> error + fl list" where
  "newaxis_start stadatar =
     bindE (np_arange (- shift stadatar) 0 (sampling stadatar)) (\<lambda>a. Inr (a @ [Fin 0]))"

definition loop_from :: "station \<Rightarrow> int" where
  "loop_from stadatar = py_int (shift stadatar / sampling stadatar + 1)"

definition loop_samples :: "station \<Rightarrow> int list" where
  "loop_samples stadatar = [loop_from stadatar..int (rflength stadatar) - 1]"

text \<open>
  After the loop:
  \<^verbatim>\<open>
  endidx = Newaxis.shape[0]
  x_new = np.arange(0, stadatar.rflength) * sampling - shift
  Tempdata = interp1d(Newaxis, data[i, 0:endidx], bounds_error=False)(x_new)
  endIndice = np.where(np.isnan(Tempdata))[0]
  if endIndice.size == 0:
      New_data = Tempdata
  else:
      New_data = np.append(Tempdata[1:endIndice[0]], data[i, endidx+1:])
  if New_data.shape[0] < stadatar.rflength:
      Newdatar[i] = np.append(New_data, np.zeros(stadatar.rflength - New_data.shape[0]))
  else:
      Newdatar[i] = New_data[0: stadatar.rflength]
  \<close>
\<close>

definition x_new_axis :: "station \<Rightarrow> fl list" where
  "x_new_axis stadatar =
     map (\<lambda>k. Fin (real k * sampling stadatar - shift stadatar)) [0..<rflength stadatar]"

definition splice_tail :: "fl list \<Rightarrow> fl list \<Rightarrow> nat \<Rightarrow> fl list" where
  "splice_tail Tempdata data_i endidx =
     (let endIndice = np_where (map isnan Tempdata) in
      if endIndice = [] then Tempdata
      else drop 1 (take (hd endIndice) Tempdata) @ drop (endidx + 1) data_i)"

definition finish_row :: "nat \<Rightarrow> fl list \<Rightarrow> fl list" where
  "finish_row n New_data =
     (if length New_data < n then New_data @ replicate (n - length New_data) (Fin 0)
      else take n New_data)"

text \<open>
  The body of the loop over the events.  \<^verbatim>\<open>tps\<close> was created by \<^verbatim>\<open>np.zeros\<close>, a
  float64 array, so \<^verbatim>\<open>np.imag(TempTpds)\<close> is zero throughout:
  \<^verbatim>\<open>
  TempTpds = tps[i, :]
  StopIndex = np.where(np.imag(TempTpds) == 1)[0]
  if StopIndex.size == 0:
      StopIndex = dep_mod.depths.shape[0]
  EndIndex[i] = StopIndex - 1
  \<close>
  With a non-empty \<^verbatim>\<open>StopIndex\<close> the array itself would be stored into \<^verbatim>\<open>EndIndex[i]\<close>
  (\<^verbatim>\<open>ValueError\<close> unless it has one element) and would bound the slice
  (\<^verbatim>\<open>TypeError\<close>).
\<close>

definition moveout_event ::
  "station \<Rightarrow> (fl, 'z) dep_model_scheme \<Rightarrow> fl list list \<Rightarrow> fl list list \<Rightarrow> fl list \<Rightarrow> nat
     \<Rightarrow> error + fl list \<times> int" where
  "moveout_event stadatar dep_mod data_c tps Tpds_ref i =
     bindE (row tps i) (\<lambda>TempTpds.
     let found = np_where (imag_is_one (map of_float TempTpds)) in
     if found \<noteq> [] then (if length found = 1 then Inl TypeError else Inl ValueError)
     else
       let StopIndex = length (depths dep_mod);
           EndIndex_i = int StopIndex - 1
       in
       bindE (newaxis_start stadatar) (\<lambda>Newaxis0.
       bindE (newaxis_loop stadatar TempTpds Tpds_ref StopIndex (loop_samples stadatar)
                Newaxis0) (\<lambda>Newaxis.
       let endidx = length Newaxis in
       bindE (row data_c i) (\<lambda>data_i.
       bindE (interp1d Newaxis (take endidx data_i) False (NaN, NaN)
                (x_new_axis stadatar)) (\<lambda>Tempdata.
       Inr (finish_row (rflength stadatar) (splice_tail Tempdata data_i endidx),
            EndIndex_i))))))"



subsection \<open>Notions for the properties of the moveout correction\<close>




section \<open>Properties of \<^verbatim>\<open>_imag2nan\<close>\<close>

lemma np_where_empty_iff: "np_where bs = [] \<longleftrightarrow> (\<forall>i < length bs. \<not> bs ! i)"
  by (auto simp: np_where_def filter_empty_conv)

lemma imag2nan_unflagged:
  assumes "\<forall>v \<in> set arr. im_part v \<noteq> Fin 1"
  shows "imag2nan arr = arr"
proof -
  have "\<not> feq (im_part v) (Fin 1)" if "v \<in> set arr" for v
    using assms that by (cases "im_part v") auto
  then have "np_where (imag_is_one arr) = []"
    by (simp add: np_where_empty_iff imag_is_one_def)
  then show ?thesis by (simp add: imag2nan_def)
qed

text \<open>
  C1.  The claim: the first depth index whose value has a non-zero imaginary part is
  located, the curve is cut there and every deeper index is marked invalid.  On the
  curve \<open>0, 1 + 0.5i, 2 + 0.5i\<close> the imaginary part is non-zero from index 1 on, yet
  \<open>imag2nan\<close> finds no index (no imaginary part equals one) and returns the curve as
  it is: nothing is marked invalid.
\<close>

theorem imag2nan_misses_nonunit_imag:
  "imag2nan [\<lparr>re_part = Fin 0, im_part = Fin 0\<rparr>,
             \<lparr>re_part = Fin 1, im_part = Fin (1/2)\<rparr>,
             \<lparr>re_part = Fin 2, im_part = Fin (1/2)\<rparr>]
   = [\<lparr>re_part = Fin 0, im_part = Fin 0\<rparr>,
      \<lparr>re_part = Fin 1, im_part = Fin (1/2)\<rparr>,
      \<lparr>re_part = Fin 2, im_part = Fin (1/2)\<rparr>]"
  by (simp add: imag2nan_def np_where_def imag_is_one_def)

section \<open>Properties of the migration corrector\<close>

lemma bindE_Inl [simp]: "bindE (Inl e) f = Inl e"
  by (simp add: bindE_def)

lemma bindE_Inr [simp]: "bindE (Inr v) f = f v"
  by (simp add: bindE_def)

lemma row_in [simp]: "i < length A \<Longrightarrow> row A i = Inr (A ! i)"
  by (simp add: row_def)

lemma bget_nth: "k < length xs \<Longrightarrow> bget xs k = xs ! k"
  by (cases xs) (auto simp: bget_def)

lemma bget_single: "length xs = 1 \<Longrightarrow> bget xs k = hd xs"
  by (simp add: bget_def)

lemma bc_left:
  assumes "length ys = n" and "length xs = n \<or> length xs = 1"
  shows "bc f xs ys = Inr (map (\<lambda>k. f (bget xs k) (ys ! k)) [0..<n])"
proof (cases "length xs = length ys")
  case True
  then have "map2 f xs ys = map (\<lambda>k. f (bget xs k) (ys ! k)) [0..<n]"
    using assms(1) by (intro nth_equalityI) (simp_all add: bget_nth)
  with True show ?thesis by (simp add: bc_def)
next
  case False
  with assms have l: "length xs = 1" by auto
  have "map (f (hd xs)) ys = map (\<lambda>k. f (bget xs k) (ys ! k)) [0..<n]"
    using assms(1) l by (intro nth_equalityI) (simp_all add: bget_single)
  with False l show ?thesis by (simp add: bc_def)
qed

lemma bc_right:
  assumes "length xs = n" and "length ys = n \<or> length ys = 1"
  shows "bc f xs ys = Inr (map (\<lambda>k. f (xs ! k) (bget ys k)) [0..<n])"
proof (cases "length xs = length ys")
  case True
  then have "map2 f xs ys = map (\<lambda>k. f (xs ! k) (bget ys k)) [0..<n]"
    using assms(1) by (intro nth_equalityI) (simp_all add: bget_nth)
  with True show ?thesis by (simp add: bc_def)
next
  case False
  with assms have l: "length ys = 1" by auto
  have "map (\<lambda>x. f x (hd ys)) xs = map (\<lambda>k. f (xs ! k) (bget ys k)) [0..<n]"
    using assms(1) l by (intro nth_equalityI) (simp_all add: bget_single)
  moreover have "length xs \<noteq> 1" using False l by simp
  ultimately show ?thesis using False l by (simp add: bc_def)
qed

lemma bc_same:
  assumes "length xs = n" and "length ys = n"
  shows "bc f xs ys = Inr (map (\<lambda>k. f (xs ! k) (ys ! k)) [0..<n])"
proof -
  have "map2 f xs ys = map (\<lambda>k. f (xs ! k) (ys ! k)) [0..<n]"
    using assms by (intro nth_equalityI) simp_all
  then show ?thesis using assms by (simp add: bc_def)
qed

lemma leg_change_eq:
  assumes "length dl = n" and "length dv = n" and "length cv = n \<or> length cv = 1"
  shows "leg_change dl cv dv = Inr (map (\<lambda>k. leg_term (dl ! k) (bget cv k) (dv ! k)) [0..<n])"
proof -
  have 1: "bc fmul cv (map (fadd (Fin 1)) dv)
             = Inr (map (\<lambda>k. fmul (bget cv k) (fadd (Fin 1) (dv ! k))) [0..<n])"
    using bc_left [of "map (fadd (Fin 1)) dv" n cv fmul] assms by simp
  have 2: "bc fdiv dl (map (\<lambda>k. fmul (bget cv k) (fadd (Fin 1) (dv ! k))) [0..<n])
             = Inr (map (\<lambda>k. fdiv (dl ! k) (fmul (bget cv k) (fadd (Fin 1) (dv ! k)))) [0..<n])"
    using bc_same [of dl n _ fdiv] assms by simp
  have 3: "bc fdiv dl cv = Inr (map (\<lambda>k. fdiv (dl ! k) (bget cv k)) [0..<n])"
    using bc_right [of dl n cv fdiv] assms by simp
  have 4: "bc fsub (map (\<lambda>k. fdiv (dl ! k) (fmul (bget cv k) (fadd (Fin 1) (dv ! k)))) [0..<n])
                   (map (\<lambda>k. fdiv (dl ! k) (bget cv k)) [0..<n])
             = Inr (map (\<lambda>k. leg_term (dl ! k) (bget cv k) (dv ! k)) [0..<n])"
    using bc_same [of _ n _ fsub] by (simp add: leg_term_def)
  show ?thesis by (simp add: leg_change_def 1 2 3 4)
qed

lemma tmpds_of_eq:
  assumes "length dls = n" and "length dvs = n" and "length (cvs m) = n \<or> length (cvs m) = 1"
    and "length dlp = n" and "length dvp = n" and "length (cvp m) = n \<or> length (cvp m) = 1"
  shows "tmpds_of m dls dvs dlp dvp
           = Inr (map (\<lambda>k. delta_t (dls ! k) (bget (cvs m) k) (dvs ! k)
                                      (dlp ! k) (bget (cvp m) k) (dvp ! k)) [0..<n])"
proof -
  have "bc fsub (map (\<lambda>k. leg_term (dls ! k) (bget (cvs m) k) (dvs ! k)) [0..<n])
                (map (\<lambda>k. leg_term (dlp ! k) (bget (cvp m) k) (dvp ! k)) [0..<n])
          = Inr (map (\<lambda>k. delta_t (dls ! k) (bget (cvs m) k) (dvs ! k)
                                      (dlp ! k) (bget (cvp m) k) (dvp ! k)) [0..<n])"
    using bc_same [of _ n _ fsub] by (simp add: delta_t_def)
  then show ?thesis
    using assms by (simp add: tmpds_of_def leg_change_eq)
qed

lemma rect_row: "rect ev n A \<Longrightarrow> i < ev \<Longrightarrow> length (A ! i) = n"
  by (simp add: rect_def list_all_length)

lemma rect_len: "rect ev n A \<Longrightarrow> length A = ev"
  by (simp add: rect_def)

lemma timecorrection_row_eq:
  assumes sh: "migration_shapes ev n m Y pplat_s pplon_s pplat_p pplon_p raylength_s raylength_p"
    and i: "i < ev"
    and dvp: "length (interpdvp m (queried_p Y pplat_p pplon_p i)) = n"
    and dvs: "length (interpdvs m (queried_p Y pplat_s pplon_s i)) = n"
  shows "timecorrection_row m Y pplat_s pplon_s pplat_p pplon_p raylength_s raylength_p i
     = Inr (cumsum (nan_to_zero (map (\<lambda>k.
         delta_t (raylength_s ! i ! k) (bget (cvs m) k)
                 (interpdvs m (queried_p Y pplat_s pplon_s i) ! k)
                 (raylength_p ! i ! k) (bget (cvp m) k)
                 (interpdvp m (queried_p Y pplat_p pplon_p i) ! k)) [0..<n])))"
proof -
  from sh have Y: "length Y = n"
    and r: "rect ev n pplat_s" "rect ev n pplon_s" "rect ev n pplat_p" "rect ev n pplon_p"
           "rect ev n raylength_s" "rect ev n raylength_p"
    and cv: "length (cvs m) = n \<or> length (cvs m) = 1" "length (cvp m) = n \<or> length (cvp m) = 1"
    by (simp_all add: migration_shapes_def)
  note len = r [THEN rect_len] and rw = r [THEN rect_row, OF i]
  have pp: "points_of Y (pplat_p ! i) (pplon_p ! i) = Inr (queried_p Y pplat_p pplon_p i)"
    using rw Y by (simp add: points_of_def queried_p_def)
  have ps: "points_of Y (pplat_s ! i) (pplon_s ! i) = Inr (queried_p Y pplat_s pplon_s i)"
    using rw Y by (simp add: points_of_def queried_p_def)
  have t: "tmpds_of m (raylength_s ! i) (interpdvs m (queried_p Y pplat_s pplon_s i))
               (raylength_p ! i) (interpdvp m (queried_p Y pplat_p pplon_p i))
     = Inr (map (\<lambda>k.
         delta_t (raylength_s ! i ! k) (bget (cvs m) k)
                 (interpdvs m (queried_p Y pplat_s pplon_s i) ! k)
                 (raylength_p ! i ! k) (bget (cvp m) k)
                 (interpdvp m (queried_p Y pplat_p pplon_p i) ! k)) [0..<n])"
    using rw cv dvp dvs by (intro tmpds_of_eq) simp_all
  have c: "length (cumsum xs) = length xs" for xs
  proof -
    have "length (cumsum_from a ys) = length ys" for a ys
      by (induction ys arbitrary: a) simp_all
    then show ?thesis by (cases xs) (simp_all add: cumsum_def)
  qed
  show ?thesis
    using i len rw
    by (simp add: timecorrection_row_def pp ps t assign_row_def c nan_to_zero_def)
qed

lemma fmul_one [simp]: "fmul v (Fin 1) = v"
  by (cases v) simp_all

lemma fadd_zero [simp]: "fadd v (Fin 0) = v"
  by (cases v) simp_all

lemma fsub_self: "fsub q q = Fin 0 \<or> fsub q q = NaN"
  by (cases q) (simp_all add: fsub_def)

lemma leg_term_flat: "leg_term l v (Fin 0) = Fin 0 \<or> leg_term l v (Fin 0) = NaN"
  using fsub_self [of "fdiv l v"] by (simp add: leg_term_def)

lemma delta_t_flat:
  "\<not> isnan (delta_t ls vs (Fin 0) lp vp (Fin 0)) \<Longrightarrow> delta_t ls vs (Fin 0) lp vp (Fin 0) = Fin 0"
  using leg_term_flat [of ls vs] leg_term_flat [of lp vp]
  by (auto simp: delta_t_def fsub_def)

lemma cumsum_from_zeros: "cumsum_from (Fin 0) (replicate n (Fin 0)) = replicate n (Fin 0)"
  by (induction n) simp_all

lemma cumsum_zeros: "cumsum (replicate n (Fin 0)) = replicate n (Fin 0)"
  by (cases n) (simp_all add: cumsum_def cumsum_from_zeros)

lemma mapE_Inr:
  "(\<And>x. x \<in> set xs \<Longrightarrow> f x = Inr (g x)) \<Longrightarrow> mapE f xs = Inr (map g xs)"
  by (induction xs) simp_all

lemma bc_fadd_zeros: "length r = n \<Longrightarrow> bc fadd r (replicate n (Fin 0)) = Inr r"
  by (simp add: bc_def) (intro nth_equalityI, simp_all)

lemma bc_rows_fadd_zeros:
  assumes "rect ev n T"
  shows "bc_rows fadd T (replicate ev (replicate n (Fin 0))) = Inr T"
proof -
  have "mapE (\<lambda>(r, s). bc fadd r s) (zip T (replicate ev (replicate n (Fin 0))))
          = Inr (map fst (zip T (replicate ev (replicate n (Fin 0)))))"
  proof (rule mapE_Inr)
    fix x assume mem: "x \<in> set (zip T (replicate ev (replicate n (Fin 0))))"
    obtain r s where x: "x = (r, s)" by (cases x)
    from mem x have "r \<in> set T" and "s \<in> set (replicate ev (replicate n (Fin 0)))"
      by (blast dest: set_zip_leftD set_zip_rightD)+
    with x have "fst x \<in> set T" and "snd x = replicate n (Fin 0)"
      by simp_all
    moreover from this assms have "length (fst x) = n"
      by (simp add: rect_def list_all_iff)
    ultimately show "(case x of (r, s) \<Rightarrow> bc fadd r s) = Inr (fst x)"
      by (cases x) (simp add: bc_fadd_zeros)
  qed
  moreover have "map fst (zip T (replicate ev (replicate n (Fin 0)))) = T"
    using assms by (simp add: rect_def map_fst_zip)
  ultimately show ?thesis using assms by (simp add: bc_rows_def rect_def)
qed

text \<open>
  C3.  When the perturbation field returns zero P and S perturbation at every point
  queried for every event (and the arrays have the shapes the caller builds: \<open>ev\<close>
  rows of the depth grid's length, reference velocities of that length or scalar),
  the cumulative correction is zero at every depth sample of every event and
  \<^verbatim>\<open>psrf_3D_migration\<close> returns the input travel-time curves unchanged.
\<close>

theorem migration_flat_field:
  assumes sh: "migration_shapes ev n m Y pplat_s pplon_s pplat_p pplon_p raylength_s raylength_p"
    and T: "rect ev n Tpds"
    and zp: "\<And>i. i < ev \<Longrightarrow> interpdvp m (queried_p Y pplat_p pplon_p i) = replicate n (Fin 0)"
    and zs: "\<And>i. i < ev \<Longrightarrow> interpdvs m (queried_p Y pplat_s pplon_s i) = replicate n (Fin 0)"
  shows "timecorrections m Y pplat_s pplon_s pplat_p pplon_p raylength_s raylength_p
           = Inr (replicate ev (replicate n (Fin 0)))
       \<and> psrf_3D_migration pplat_s pplon_s pplat_p pplon_p raylength_s raylength_p Tpds Y m
           = Inr Tpds"
proof -
  have rw: "timecorrection_row m Y pplat_s pplon_s pplat_p pplon_p raylength_s raylength_p i
              = Inr (replicate n (Fin 0))" if i: "i < ev" for i
  proof -
    have "nan_to_zero (map (\<lambda>k.
             delta_t (raylength_s ! i ! k) (bget (cvs m) k) (replicate n (Fin 0) ! k)
                     (raylength_p ! i ! k) (bget (cvp m) k) (replicate n (Fin 0) ! k)) [0..<n])
            = replicate n (Fin 0)"
      by (intro nth_equalityI) (simp_all add: nan_to_zero_def delta_t_flat)
    then show ?thesis
      using timecorrection_row_eq [OF sh i] zp [OF i] zs [OF i]
      by (simp add: cumsum_zeros)
  qed
  from sh have "length raylength_p = ev"
    by (simp add: migration_shapes_def rect_def)
  then have tc: "timecorrections m Y pplat_s pplon_s pplat_p pplon_p raylength_s raylength_p
              = Inr (replicate ev (replicate n (Fin 0)))"
    using mapE_Inr [of "[0..<ev]" _ "\<lambda>_. replicate n (Fin 0)"] rw
    by (simp add: timecorrections_def map_replicate_const)
  then show ?thesis
    by (simp add: psrf_3D_migration_def bc_rows_fadd_zeros [OF T])
qed

theorem migration_flat_field_witness:
  "psrf_3D_migration [[Fin 0, Fin 0]] [[Fin 0, Fin 0]] [[Fin 0, Fin 0]] [[Fin 0, Fin 0]]
       [[Fin 0, Fin 11]] [[Fin 0, Fin 10]] [[Fin 0, Fin 1]] [Fin 0, Fin 10]
       (const_pert (Fin 0) (Fin 0) [Fin 6] [Fin 3])
     = Inr [[Fin 0, Fin 1]]"
proof -
  let ?m = "const_pert (Fin 0) (Fin 0) [Fin 6] [Fin 3]"
  let ?Y = "[Fin 0, Fin 10]"
  let ?z = "[[Fin 0, Fin 0]]"
  have sh: "migration_shapes 1 2 ?m ?Y ?z ?z ?z ?z [[Fin 0, Fin 11]] [[Fin 0, Fin 10]]"
    by (simp add: migration_shapes_def rect_def const_pert_def)
  have T: "rect 1 2 [[Fin 0, Fin 1]]"
    by (simp add: rect_def)
  have zp: "interpdvp ?m (queried_p ?Y ?z ?z i) = replicate 2 (Fin 0)" if "i < 1" for i
    using that by (simp add: const_pert_def queried_p_def numeral_2_eq_2)
  have zs: "interpdvs ?m (queried_p ?Y ?z ?z i) = replicate 2 (Fin 0)" if "i < 1" for i
    using that by (simp add: const_pert_def queried_p_def numeral_2_eq_2)
  from migration_flat_field [OF sh T zp zs] show ?thesis
    by (rule conjunct2)
qed

text \<open>
  C9 (as amended).  For every event, each NaN value of the per-sample term \<open>\<Delta>t\<close> is
  replaced by zero before the cumulative sum is taken; every other value, an infinite
  one included, enters the cumulative sum as it is (the code tests \<^verbatim>\<open>np.isnan\<close>).
\<close>

theorem timecorrection_row_zeroes_nan_only:
  assumes "migration_shapes ev n m Y pplat_s pplon_s pplat_p pplon_p raylength_s raylength_p"
    and "i < ev"
    and "length (interpdvp m (queried_p Y pplat_p pplon_p i)) = n"
    and "length (interpdvs m (queried_p Y pplat_s pplon_s i)) = n"
  shows "timecorrection_row m Y pplat_s pplon_s pplat_p pplon_p raylength_s raylength_p i
     = Inr (cumsum (map (\<lambda>k.
         let d = delta_t (raylength_s ! i ! k) (bget (cvs m) k)
                         (interpdvs m (queried_p Y pplat_s pplon_s i) ! k)
                         (raylength_p ! i ! k) (bget (cvp m) k)
                         (interpdvp m (queried_p Y pplat_p pplon_p i) ! k)
         in if isnan d then Fin 0 else d) [0..<n]))"
  using timecorrection_row_eq [OF assms]
  by (simp add: nan_to_zero_def Let_def comp_def)

theorem timecorrection_row_zeroes_nan_only_witness:
  "timecorrection_row (const_pert (Fin 0) (Fin (-1)) [Fin 1] [Fin 1]) [Fin 0, Fin 10]
       [[Fin 0, Fin 0]] [[Fin 0, Fin 0]] [[Fin 0, Fin 0]] [[Fin 0, Fin 0]]
       [[Fin 0, Fin 1]] [[Fin 0, Fin 0]] 0
     = Inr [Fin 0, PInf]"
proof -
  let ?m = "const_pert (Fin 0) (Fin (-1)) [Fin 1] [Fin 1]"
  let ?Y = "[Fin 0, Fin 10]"
  let ?z = "[[Fin 0, Fin 0]]"
  have sh: "migration_shapes 1 2 ?m ?Y ?z ?z ?z ?z [[Fin 0, Fin 1]] ?z"
    by (simp add: migration_shapes_def rect_def const_pert_def)
  have i: "(0::nat) < 1" by simp
  have lp: "length (interpdvp ?m (queried_p ?Y ?z ?z 0)) = 2"
    by (simp add: const_pert_def queried_p_def)
  have ls: "length (interpdvs ?m (queried_p ?Y ?z ?z 0)) = 2"
    by (simp add: const_pert_def queried_p_def)
  have u: "[0..<2] = [0, Suc 0]"
    by (simp add: upt_rec)
  show ?thesis
    unfolding timecorrection_row_zeroes_nan_only [OF sh i lp ls] u
    by (simp add: const_pert_def queried_p_def bget_def delta_t_def leg_term_def fsub_def
        cumsum_def)
qed

text \<open>
  The claim as stated fails: with an S perturbation of \<open>-1\<close> the denominator
  \<open>v\<^sub>s (1 + dv\<^sub>s)\<close> is zero, \<open>\<Delta>t\<close> is \<open>+\<infinity>\<close> for a ray of length 1, and the infinite
  term is not replaced by zero: the correction and the returned travel time are
  infinite.
\<close>

theorem migration_keeps_infinite_term:
  "delta_t (Fin 1) (Fin 1) (Fin (-1)) (Fin 0) (Fin 1) (Fin 0) = PInf
   \<and> timecorrection_row (const_pert (Fin 0) (Fin (-1)) [Fin 1] [Fin 1]) [Fin 0]
        [[Fin 0]] [[Fin 0]] [[Fin 0]] [[Fin 0]] [[Fin 1]] [[Fin 0]] 0 = Inr [PInf]
   \<and> timecorrection_row (const_pert (Fin 0) (Fin (-1)) [Fin 1] [Fin 1]) [Fin 0]
        [[Fin 0]] [[Fin 0]] [[Fin 0]] [[Fin 0]] [[Fin 1]] [[Fin 0]] 0 \<noteq> Inr [Fin 0]
   \<and> psrf_3D_migration [[Fin 0]] [[Fin 0]] [[Fin 0]] [[Fin 0]] [[Fin 1]] [[Fin 0]]
        [[Fin 5]] [Fin 0] (const_pert (Fin 0) (Fin (-1)) [Fin 1] [Fin 1]) = Inr [[PInf]]"
  by (simp add: delta_t_def leg_term_def fsub_def timecorrection_row_def points_of_def
      const_pert_def tmpds_of_def leg_change_def bc_def nan_to_zero_def cumsum_def
      assign_row_def psrf_3D_migration_def timecorrections_def bc_rows_def)

section \<open>Properties of \<^verbatim>\<open>xps_tps_map\<close>: elevation handling\<close>

lemma argsort_pairs_sorted:
  assumes "sorted (map sort_rank x)" and "length x = length y"
  shows "argsort_pairs x y = zip x y"
proof -
  have "map (\<lambda>p. sort_rank (fst p)) (zip x y) = map sort_rank x"
    using assms(2) by (intro nth_equalityI) simp_all
  with assms(1) show ?thesis
    by (simp add: argsort_pairs_def sort_key_id_if_sorted)
qed

lemma interp_loop_length [simp]: "length (interp_loop dx dy j dz) = length dz"
  by (induction dz arbitrary: j) simp_all

lemma np_interp_length [simp]: "length (np_interp x xp fp) = length x"
  by (simp add: np_interp_def)

lemma interp1d_sorted:
  assumes "sorted (map sort_rank x)" and "length x = length y" and "x \<noteq> []"
  shows "interp1d x y False (fb, fa) x_new
           = Inr (map2 (\<lambda>q v. if flt (last x) q then fa
                               else if flt q (hd x) then fb
                               else v) x_new (np_interp x_new x y))"
proof -
  have m: "map fst (zip x y) = x" "map snd (zip x y) = y"
    using assms(2) by simp_all
  show ?thesis
    using assms by (simp add: interp1d_def argsort_pairs_sorted Let_def m case_prod_beta)
qed

lemma flt_sort_rank: "flt a b \<Longrightarrow> sort_rank a < sort_rank b"
  by (cases a; cases b) (simp_all add: sort_rank_def)

lemma sorted_hd_last:
  assumes "sorted (map sort_rank x)" and "x \<noteq> []"
  shows "sort_rank (hd x) \<le> sort_rank (last x)"
proof -
  have "map sort_rank x ! 0 \<le> map sort_rank x ! (length x - 1)"
    using assms by (intro sorted_nth_mono) simp_all
  then show ?thesis
    using assms(2) by (simp add: hd_conv_nth last_conv_nth)
qed

lemma below_not_above:
  assumes "sorted (map sort_rank x)" and "x \<noteq> []" and "flt q (hd x)"
  shows "\<not> flt (last x) q"
proof
  assume "flt (last x) q"
  then have "sort_rank (last x) < sort_rank (hd x)"
    using assms(3) flt_sort_rank by (meson less_trans)
  with sorted_hd_last [OF assms(1,2)] show False by simp
qed

lemma reinterp_sorted:
  assumes s: "sorted (map sort_rank (depths_elev dm))" and r: "reinterp dm c = Inr c'"
  shows "reinterpolated dm c c'"
proof -
  from r have c: "c \<noteq> []"
    by (auto simp: reinterp_def last_elem_def split: if_splits)
  with r have i: "interp1d (depths_elev dm) c False (NaN, last c) (depths dm) = Inr c'"
    by (simp add: reinterp_def last_elem_def)
  then have len: "length (depths_elev dm) = length c" and ne: "depths_elev dm \<noteq> []"
    by (auto simp: interp1d_def split: if_splits)
  have c': "c' = map2 (\<lambda>q v. if flt (last (depths_elev dm)) q then last c
                               else if flt q (hd (depths_elev dm)) then NaN
                               else v)
                      (depths dm) (np_interp (depths dm) (depths_elev dm) c)"
    using i by (auto simp: interp1d_sorted [OF s len ne])
  show ?thesis
    unfolding reinterpolated_def
    using i c' below_not_above [OF s ne] by (simp add: list_all_iff)
qed

text \<open>
  C7.  With a non-zero station elevation (and an increasing elevation-adjusted grid),
  each curve that \<^verbatim>\<open>xps_tps_map\<close> returns (travel time, the two offsets and, when
  requested, the two ray lengths) is the curve the velocity model computed on the
  elevation-adjusted grid, interpolated onto the unadjusted grid: a depth below the
  range of the elevation-adjusted grid gets NaN, a depth above it gets the curve's
  last value.
\<close>

theorem xps_tps_map_elevation:
  assumes el: "\<not> feq (elevation dm) (Fin 0)"
    and s: "sorted (map sort_rank (depths_elev dm))"
    and r: "xps_tps_map dm srayp prayp is_raylen sphere = Inr (tps', x_s', x_p', rl')"
  shows "reinterpolated dm (tpds dm srayp prayp sphere) tps'
       \<and> reinterpolated dm (radius_s dm prayp PhaseS sphere) x_s'
       \<and> reinterpolated dm (radius_s dm prayp PhaseP sphere) x_p'
       \<and> (if is_raylen
          then \<exists>ls lp. rl' = Some (ls, lp)
                 \<and> reinterpolated dm (raylength dm srayp PhaseS sphere) ls
                 \<and> reinterpolated dm (raylength dm prayp PhaseP sphere) lp
          else rl' = None)"
  using el r reinterp_sorted [OF s]
  by (auto simp: xps_tps_map_def bindE_def Let_def split: sum.splits if_splits)

theorem xps_tps_map_elevation_witness:
  "xps_tps_map toy_dep_model (Fin 1) (Fin 1) True True
     = Inr ([Fin (1/2), Fin 2, Fin 3], [Fin 1, Fin 3, Fin 4], [Fin 1, Fin 3, Fin 4],
            Some ([Fin 5, Fin 15, Fin 20], [Fin 5, Fin 15, Fin 20]))
   \<and> reinterpolated toy_dep_model (tpds toy_dep_model (Fin 1) (Fin 1) True)
        [Fin (1/2), Fin 2, Fin 3]
   \<and> reinterpolated toy_dep_model (radius_s toy_dep_model (Fin 1) PhaseS True)
        [Fin 1, Fin 3, Fin 4]
   \<and> reinterpolated toy_dep_model (raylength toy_dep_model (Fin 1) PhaseP True)
        [Fin 5, Fin 15, Fin 20]"
proof -
  have el: "\<not> feq (elevation toy_dep_model) (Fin 0)"
    by (simp add: toy_dep_model_def)
  have s: "sorted (map sort_rank (depths_elev toy_dep_model))"
    by (simp add: toy_dep_model_def sort_rank_def)
  have r: "xps_tps_map toy_dep_model (Fin 1) (Fin 1) True True
     = Inr ([Fin (1/2), Fin 2, Fin 3], [Fin 1, Fin 3, Fin 4], [Fin 1, Fin 3, Fin 4],
            Some ([Fin 5, Fin 15, Fin 20], [Fin 5, Fin 15, Fin 20]))"
    by (simp add: xps_tps_map_def toy_dep_model_def reinterp_def last_elem_def interp1d_def
        argsort_pairs_def sort_rank_def np_interp_def binary_search_with_guess_def
        linear_search_def interp_value_def interp_segment_def fle_def fsub_def)
  from xps_tps_map_elevation [OF el s r] r show ?thesis
    by simp
qed

section \<open>Properties of the ray tracer\<close>

lemmas toy_eval =
  psrf_3D_raytracing_def load_rayp_lib_def trace_event_def srayps_of_def
  toy_geo_def toy_station_def toy_mod3d_def toy_mod3d_frac_def toy_grid_def toy_grid_int_def
  toy_legs_def toy_legs_int_def trace_legs_def
  trace_upto_def trace_step_def legs_init_def offset_step_def tps_corr_of_def vslow_def
  bc_def np_mean_def np_diff_def fsub_def numeral_2_eq_2 numeral_3_eq_3 Let_def row_def
  interp1d_def argsort_pairs_def sort_rank_def cumsum_def assign_row_def
  isub_def as_float_def alen_def num_val_def zeros_like_def setitem_def to_int64_def
  py_int_def dtype_of_def cast_to_def

lemma is_fin_conv: "is_fin x \<longleftrightarrow> x = Fin (fin_val x)"
  by (cases x) simp_all

lemma interp1d_shifted_grid:
  assumes fin: "list_all is_fin Y" and ne: "Y \<noteq> []" and e: "e \<noteq> 0"
  shows "interp1d (map (\<lambda>d. fsub d (Fin e)) Y) t True fill Y = Inl ValueError"
proof (cases "length Y = length t")
  case False
  then show ?thesis by (simp add: interp1d_def)
next
  case True
  let ?Y' = "map (\<lambda>d. fsub d (Fin e)) Y"
  let ?pts = "argsort_pairs ?Y' t"
  have pne: "?pts \<noteq> []"
  proof
    assume "?pts = []"
    then have "length ?pts = 0" by simp
    then show False using True ne by (simp add: argsort_pairs_def)
  qed
  have sub: "fst p \<in> set ?Y'" if "p \<in> set ?pts" for p
  proof -
    from that have "p \<in> set (zip ?Y' t)" by (simp add: argsort_pairs_def)
    then show ?thesis by (metis set_zip_leftD prod.collapse)
  qed
  from pne sub have "fst (hd ?pts) \<in> set ?Y'" and "fst (last ?pts) \<in> set ?Y'"
    by simp_all
  then obtain dl dh where dl: "dl \<in> set Y" "fst (hd ?pts) = fsub dl (Fin e)"
    and dh: "dh \<in> set Y" "fst (last ?pts) = fsub dh (Fin e)"
    by auto
  have val: "d = Fin (fin_val d)" if "d \<in> set Y" for d
    using fin that by (simp add: list_all_iff is_fin_conv [symmetric])
  have shift: "fsub d (Fin e) = Fin (fin_val d - e)" if "d \<in> set Y" for d
    by (subst val [OF that]) (simp add: fsub_def)
  let ?V = "fin_val ` set Y"
  have V: "finite ?V" "?V \<noteq> {}" using ne by simp_all
  have ex: "list_ex (\<lambda>q. flt q (fst (hd ?pts)) \<or> flt (fst (last ?pts)) q) Y"
  proof (cases "0 < e")
    case True
    obtain q where q: "q \<in> set Y" "fin_val q = Max ?V"
      using Max_in [OF V] by auto
    have "fin_val dh \<le> Max ?V" using dh(1) V(1) by simp
    then have "fin_val dh - e < fin_val q" using q(2) True by simp
    then have "flt (Fin (fin_val dh - e)) (Fin (fin_val q))" by simp
    then have "flt (fst (last ?pts)) q"
      using val [OF q(1)] shift [OF dh(1)] dh(2) by simp
    with q(1) show ?thesis by (auto simp: list_ex_iff)
  next
    case False
    with e have neg: "e < 0" by simp
    obtain q where q: "q \<in> set Y" "fin_val q = Min ?V"
      using Min_in [OF V] by auto
    have "Min ?V \<le> fin_val dl" using dl(1) V(1) by simp
    then have "fin_val q < fin_val dl - e" using q(2) neg by simp
    then have "flt (Fin (fin_val q)) (Fin (fin_val dl - e))" by simp
    then have "flt q (fst (hd ?pts))"
      using val [OF q(1)] shift [OF dl(1)] dl(2) by simp
    with q(1) show ?thesis by (auto simp: list_ex_iff)
  qed
  from True ne ex show ?thesis
    by (simp add: interp1d_def Let_def hd_map last_map pne)
qed

lemma mapE_Inr_D:
  "mapE f xs = Inr ys \<Longrightarrow> length ys = length xs \<and> (\<forall>k<length xs. f (xs ! k) = Inr (ys ! k))"
proof (induction xs arbitrary: ys)
  case Nil
  then show ?case by simp
next
  case (Cons x xs)
  from Cons.prems obtain y ys' where y: "f x = Inr y" and ys': "mapE f xs = Inr ys'"
    and ys: "ys = y # ys'"
    by (auto simp: bindE_def split: sum.splits)
  from Cons.IH [OF ys'] y ys show ?case
    by (auto simp: nth_Cons split: nat.splits)
qed

lemma bindE_eq_Inr: "bindE m f = Inr r \<longleftrightarrow> (\<exists>v. m = Inr v \<and> f v = Inr r)"
  by (cases m) simp_all


lemma isub_values:
  assumes "isub Y z = Inr Y'"
  shows "as_float Y' = map (\<lambda>d. fsub d (num_val z)) (as_float Y)"
    and "alen Y' = alen Y" and "dtype_of Y' = dtype_of Y"
  using assms
  by (cases Y; cases z; auto simp: isub_def as_float_def alen_def dtype_of_def num_val_def
        fsub_def)+


lemma isub_int_float: "isub (IntArr ks) (PyFloat x) = Inl TypeError"
  by (simp add: isub_def)

lemma trace_event_zero_elevation:
  assumes "trace_event env mod3d st lib R Y dep_range ddepth z i = Inr (l, t)"
    and "num_val z = Fin 0"
  shows "t = replicate (alen Y) (Fin 0)"
  using assms by (auto simp: trace_event_def bindE_eq_Inr split: if_splits)

lemma trace_event_shifted_raises:
  assumes "list_all is_fin (as_float Y)" and "as_float Y \<noteq> []"
    and "num_val z = Fin e" and "e \<noteq> 0" and "isub Y z = Inr Y'"
  shows "\<exists>err. trace_event env mod3d st lib R Y' Y ddepth z i = Inl err"
proof -
  have "interp1d (as_float Y') t True (NaN, NaN) (as_float Y) = Inl ValueError" for t
    using interp1d_shifted_grid [OF assms(1,2,4)] isub_values(1) [OF assms(5)] assms(3)
    by simp
  then show ?thesis
    using assms(3,4)
    by (auto simp: trace_event_def bindE_def split: sum.splits)
qed



lemma setitem_shape [simp]:
  "alen (setitem env a j v) = alen a" "dtype_of (setitem env a j v) = dtype_of a"
  by (cases a; simp add: setitem_def alen_def dtype_of_def)+

lemma zeros_like_shape [simp]:
  "alen (zeros_like a) = alen a" "dtype_of (zeros_like a) = dtype_of a"
  by (cases a; simp add: zeros_like_def alen_def dtype_of_def)+








text \<open>
  C2.  On a non-empty grid of finite depths with at least one event:  with an
  elevation of zero, whenever the tracer returns, its travel-time output is the
  zero-filled array it started with (no re-interpolation takes place).  With a non-zero
  elevation the tracer never returns: either the subtraction of the elevation from the
  grid raises, or the tracer calls \<^verbatim>\<open>interp1d(YAxisRange, tps_corr)(dep_range)\<close>, where
  the unshifted grid \<open>dep_range\<close> always reaches outside the shifted grid and
  \<^verbatim>\<open>interp1d\<close> was built with its default \<^verbatim>\<open>bounds_error\<close>, so that the call raises: no
  re-interpolated curve is ever returned.  (\<^verbatim>\<open>xps_tps_map\<close> passes
  \<^verbatim>\<open>bounds_error=False\<close> for the same step.)
\<close>

theorem raytracing_elevation_asymmetry:
  assumes fin: "list_all is_fin (as_float Y)" and ne: "as_float Y \<noteq> []" and ev: "0 < ev_num st"
  shows "(\<forall>z a b c d tps.
            num_val z = Fin 0 \<longrightarrow>
            snd (psrf_3D_raytracing env st Y mod3d srayp z sphere) = Inr (a, b, c, d, tps)
            \<longrightarrow> tps = replicate (ev_num st) (replicate (alen Y) (Fin 0)))
       \<and> (\<forall>z e. num_val z = Fin e \<longrightarrow> e \<noteq> 0 \<longrightarrow>
            (\<exists>err. snd (psrf_3D_raytracing env st Y mod3d srayp z sphere) = Inl err))"
proof (intro conjI allI impI)
  fix z a b c d tps
  assume z: "num_val z = Fin 0"
    and r: "snd (psrf_3D_raytracing env st Y mod3d srayp z sphere) = Inr (a, b, c, d, tps)"
  from r obtain Y' where Y': "isub Y z = Inr Y'"
    by (cases "isub Y z") (simp_all add: psrf_3D_raytracing_def Let_def)
  let ?R = "if sphere then map (\<lambda>d. fadd (fsub (Fin 6371) d) (num_val z)) (as_float Y)
            else [fadd (Fin 6371) (num_val z)]"
  let ?dd = "np_mean (np_diff (as_float Y'))"
  from r Y' obtain lib evs where
    m: "mapE (trace_event env mod3d st lib ?R Y' Y ?dd z) [0..<ev_num st] = Inr evs"
    and tps: "tps = map snd evs"
    by (auto simp: psrf_3D_raytracing_def Let_def bindE_eq_Inr)
  from mapE_Inr_D [OF m] have len: "length evs = ev_num st"
    and each: "\<And>k. k < ev_num st \<Longrightarrow>
        trace_event env mod3d st lib ?R Y' Y ?dd z k = Inr (evs ! k)"
    by simp_all
  have "snd (evs ! k) = replicate (alen Y) (Fin 0)" if "k < ev_num st" for k
    using trace_event_zero_elevation [of env mod3d st lib ?R Y' Y ?dd z k
        "fst (evs ! k)" "snd (evs ! k)"] each [OF that] z isub_values(2) [OF Y']
    by simp
  with len tps show "tps = replicate (ev_num st) (replicate (alen Y) (Fin 0))"
    by (intro nth_equalityI) simp_all
next
  fix z and e :: real
  assume z: "num_val z = Fin e" and e: "e \<noteq> 0"
  from ev have u: "[0..<ev_num st] = 0 # [1..<ev_num st]"
    by (simp add: upt_conv_Cons)
  show "\<exists>err. snd (psrf_3D_raytracing env st Y mod3d srayp z sphere) = Inl err"
  proof (cases "isub Y z")
    case (Inl err)
    then show ?thesis by (simp add: psrf_3D_raytracing_def Let_def)
  next
    case (Inr Y')
    have key: "\<exists>err. bindE (mapE (trace_event env mod3d st lib R Y' Y dd z) [0..<ev_num st]) g
                      = Inl err"
      for lib R dd and g :: "(legs \<times> fl list) list \<Rightarrow> error + 'r"
    proof -
      obtain err where "trace_event env mod3d st lib R Y' Y dd z 0 = Inl err"
        using trace_event_shifted_raises [OF fin ne z e Inr] by blast
      then show ?thesis by (simp add: u)
    qed
    show ?thesis
      by (cases "load_rayp_lib srayp"; cases sphere)
         (simp_all add: psrf_3D_raytracing_def Let_def Inr key)
  qed
qed

theorem raytracing_elevation_asymmetry_witness:
  "snd (psrf_3D_raytracing toy_geo toy_station (FloatArr toy_grid) toy_mod3d
          (SraypLib (Fin (1/2))) (PyInt 0) True)
     = Inr ([[Fin 0, Fin 1, Fin 2]], [[Fin 0, Fin 0, Fin 0]], [[Fin 0, Fin 2, Fin 4]],
            [[Fin 0, Fin 0, Fin 0]], [[Fin 0, Fin 0, Fin 0]])
   \<and> snd (psrf_3D_raytracing toy_geo toy_station (FloatArr toy_grid) toy_mod3d
          (SraypLib (Fin (1/2))) (PyFloat (Fin 1)) True)
     = Inl ValueError"
proof -
  have fin: "list_all is_fin (as_float (FloatArr toy_grid))"
    and ne: "as_float (FloatArr toy_grid) \<noteq> []"
    by (simp_all add: toy_grid_def as_float_def)
  have ev: "0 < ev_num toy_station"
    by (simp add: toy_station_def)
  note a = raytracing_elevation_asymmetry [OF fin ne ev, of toy_geo toy_mod3d
      "SraypLib (Fin (1/2))" True]
  have z: "snd (psrf_3D_raytracing toy_geo toy_station (FloatArr toy_grid) toy_mod3d
                  (SraypLib (Fin (1/2))) (PyInt 0) True)
     = Inr ([[Fin 0, Fin 1, Fin 2]], [[Fin 0, Fin 0, Fin 0]], [[Fin 0, Fin 2, Fin 4]],
            [[Fin 0, Fin 0, Fin 0]],
            replicate (ev_num toy_station) (replicate (alen (FloatArr toy_grid)) (Fin 0)))"
    by (simp add: toy_eval)
  have "num_val (PyFloat (Fin 1)) = Fin 1" and "(1::real) \<noteq> 0"
    by (simp_all add: num_val_def)
  with a obtain err where
    "snd (psrf_3D_raytracing toy_geo toy_station (FloatArr toy_grid) toy_mod3d
            (SraypLib (Fin (1/2))) (PyFloat (Fin 1)) True) = Inl err"
    by blast
  moreover have "snd (psrf_3D_raytracing toy_geo toy_station (FloatArr toy_grid) toy_mod3d
                        (SraypLib (Fin (1/2))) (PyFloat (Fin 1)) True) = Inl ValueError"
    by (simp add: toy_eval)
  ultimately show ?thesis
    using z by (simp add: toy_station_def toy_grid_def alen_def numeral_3_eq_3)
qed




text \<open>
  On the integer grid the velocities \<open>7/2\<close> and \<open>13/2\<close> that the model returns are
  stored as 3 and 6, and the offsets advance by \<open>10 * (3 * 1/10) = 3\<close> and
  \<open>10 * (6 * 1/10) = 6\<close> per step.
\<close>

lemma int_grid_truncates_velocity:
  "trace_event toy_geo toy_mod3d_frac toy_station None [Fin 6371] toy_grid_int toy_grid_int
     (Fin 10) (PyInt 0) 0 = Inr (toy_legs_int, [Fin 0, Fin 0, Fin 0])
   \<and> interpn_vs toy_mod3d_frac (Fin 0) (Fin 0) (Fin 0) = Fin (7/2)
   \<and> as_float (vs_i toy_legs_int) ! 0 = Fin 3
   \<and> x_s_i toy_legs_int ! 1 = Fin 3"
  by (simp add: toy_eval)




section \<open>Properties of the time-to-depth conversion\<close>

text \<open>
  An event whose depth axis has no valid sample, or whose last valid index exceeds
  the trace length, contributes a row of zeros (\<open>time2depth_event_zero_row\<close>).
\<close>

lemma depth_row_no_valid:
  assumes "list_all isnan DepthAxis"
  shows "depth_row DepthAxis amps Y = Inr (replicate (length Y) (Fin 0))"
proof -
  have "np_where (map (\<lambda>d. \<not> isnan d) DepthAxis) = []"
    using assms by (simp add: np_where_empty_iff list_all_length)
  then show ?thesis by (simp add: depth_row_def)
qed

lemma depth_row_index_exceeds:
  assumes "length amps < fold max (np_where (map (\<lambda>d. \<not> isnan d) DepthAxis)) 0"
  shows "depth_row DepthAxis amps Y = Inr (replicate (length Y) (Fin 0))"
  using assms by (simp add: depth_row_def Let_def)

lemma time2depth_event_zero_row:
  assumes "i < length Tpds" and "depth_axis (Tpds ! i) Y (time_axis st) = Inr (e, DepthAxis)"
    and "prime_data st = Inr d" and "i < length d"
    and "list_all isnan DepthAxis
         \<or> length (d ! i) < fold max (np_where (map (\<lambda>d. \<not> isnan d) DepthAxis)) 0"
  shows "time2depth_event st Y Tpds i = Inr (replicate (length Y) (Fin 0), e)"
  using assms depth_row_no_valid depth_row_index_exceeds
  by (auto simp: time2depth_event_def)

text \<open>
  For instance, a float64 curve that is NaN throughout gives a depth axis without a
  valid sample, and the event contributes a row of zeros.
\<close>

lemma time2depth_nan_curve_zero_row:
  "depth_axis (map of_float [NaN, NaN, NaN]) toy_grid (time_axis toy_station)
     = Inr (2, [NaN, NaN, NaN, NaN, NaN, NaN])
   \<and> time2depth toy_station toy_grid [map of_float [NaN, NaN, NaN]] None
     = Inr ([[Fin 0, Fin 0, Fin 0]], [2])"
  by code_simp

text \<open>
  C4.  The claim: an event that is evanescent already at depth index 0 yields an
  all-zero depth profile, not a crash.  When the curve of the only event carries the
  imaginary part 1 at every depth, \<open>StopIndex\<close> is not empty, the code takes the branch
  that slices \<^verbatim>\<open>TempTpds[0:StopIndex]\<close> with the array itself, and the call ends in
  \<^verbatim>\<open>TypeError\<close>, with or without normalisation.
\<close>

theorem time2depth_evanescent_at_surface_raises:
  "depth_axis evanescent_curve toy_grid (time_axis toy_station) = Inl TypeError
   \<and> time2depth toy_station toy_grid [evanescent_curve] (Some ''single'') = Inl TypeError
   \<and> time2depth toy_station toy_grid [evanescent_curve] None = Inl TypeError"
  by (simp add: time2depth_def time2depth_event_def depth_axis_def evanescent_curve_def
      imag_is_one_def np_where_def toy_station_def toy_grid_def normalize_def prime_data_def
      data_key_def nanmax_def fmax_nan_def scale_at_def row_def)

section \<open>Properties of the moveout correction\<close>

lemma finish_row_length: "length (finish_row n x) = n"
  by (simp add: finish_row_def)



lemma newaxis_loop_cut:
  assumes "crossing (refaxis st j) tps_i S = []"
  shows "newaxis_loop st tps_i ref S (pre @ j # post) acc = newaxis_loop st tps_i ref S pre acc"
proof (induction pre arbitrary: acc)
  case Nil
  show ?case using assms by simp
next
  case (Cons p ps)
  show ?case
  proof (cases "crossing (refaxis st p) tps_i S = []")
    case True
    then show ?thesis by simp
  next
    case False
    then show ?thesis
      by (cases "new_sample (refaxis st p) tps_i ref (hd (crossing (refaxis st p) tps_i S))")
         (simp_all add: Cons.IH)
  qed
qed

lemma py_get_in: "k < length a \<Longrightarrow> \<exists>v. py_get a (int k) = Inr v"
  by (simp add: py_get_def)

lemma py_get_before: "k < length a \<Longrightarrow> \<exists>v. py_get a (int k - 1) = Inr v"
  by (cases k; cases a) (auto simp: py_get_def)

lemma new_sample_ok:
  assumes "k < length tps_i" and "length ref = length tps_i"
  shows "\<exists>v. new_sample q tps_i ref k = Inr v"
proof -
  from assms have k: "k < length ref" by simp
  from py_get_in [OF k] py_get_before [OF k] py_get_in [OF assms(1)] py_get_before [OF assms(1)]
  obtain r1 r0 t1 t0 where "py_get ref (int k) = Inr r1" "py_get ref (int k - 1) = Inr r0"
    "py_get tps_i (int k) = Inr t1" "py_get tps_i (int k - 1) = Inr t0"
    by blast
  then show ?thesis by (simp add: new_sample_def)
qed

lemma hd_crossing_less:
  assumes "crossing q tps_i S \<noteq> []"
  shows "hd (crossing q tps_i S) < length tps_i"
proof -
  from assms have "hd (crossing q tps_i S) \<in> set (crossing q tps_i S)" by simp
  then show ?thesis by (auto simp: crossing_def np_where_def)
qed

lemma newaxis_loop_total:
  assumes "length ref = length tps_i"
  shows "\<exists>ax. newaxis_loop st tps_i ref S js acc = Inr ax
             \<and> length acc \<le> length ax \<and> length ax \<le> length acc + length js"
proof (induction js arbitrary: acc)
  case Nil
  show ?case by simp
next
  case (Cons j js)
  show ?case
  proof (cases "crossing (refaxis st j) tps_i S = []")
    case True
    then show ?thesis by simp
  next
    case False
    from new_sample_ok [OF hd_crossing_less [OF False] assms]
    obtain v where v: "new_sample (refaxis st j) tps_i ref (hd (crossing (refaxis st j) tps_i S))
                         = Inr v"
      by blast
    from Cons.IH [of "acc @ [v]"] obtain ax where
      "newaxis_loop st tps_i ref S js (acc @ [v]) = Inr ax"
      "length (acc @ [v]) \<le> length ax" "length ax \<le> length (acc @ [v]) + length js"
      by blast
    with False v show ?thesis by simp
  qed
qed

lemma newaxis_start_ok:
  assumes "sampling st \<noteq> 0"
  shows "\<exists>a. newaxis_start st = Inr a \<and> length a = nat \<lceil>shift st / sampling st\<rceil> + 1"
  using assms by (simp add: newaxis_start_def np_arange_def)

lemma interp1d_ok:
  assumes "length x = length y" and "x \<noteq> []"
  shows "\<exists>r. interp1d x y False fill q = Inr r"
  using assms by (simp add: interp1d_def Let_def)

lemma found_empty: "np_where (imag_is_one (map of_float xs)) = []"
  by (simp add: np_where_empty_iff imag_is_one_def of_float_def)

lemma truncated_axis_fits:
  assumes s: "0 < sampling st" "0 \<le> shift st"
    and j: "loop_from st \<le> j" "j \<le> int (rflength st) - 1"
  shows "nat \<lceil>shift st / sampling st\<rceil> + 1 + nat (j - loop_from st) \<le> rflength st"
proof -
  let ?s = "shift st / sampling st"
  from s have nonneg: "0 \<le> ?s" by simp
  then have lf: "loop_from st = \<lfloor>?s\<rfloor> + 1"
    by (simp add: loop_from_def py_int_def)
  have "\<lceil>?s\<rceil> \<le> \<lfloor>?s\<rfloor> + 1" by linarith
  moreover have "0 \<le> \<lceil>?s\<rceil>" using nonneg by simp
  ultimately have "int (nat \<lceil>?s\<rceil> + 1 + nat (j - loop_from st)) \<le> int (rflength st)"
    using j lf by simp
  then show ?thesis by linarith
qed









text \<open>
  The event at which the search comes up empty needs less: whatever the ratio of the
  shift to the sampling interval, its truncated axis fits the trace and the event is
  processed without an error.
\<close>

lemma moveout_event_truncated:
  assumes s: "0 < sampling st" "0 < shift st"
    and i: "i < length tps" "i < length data_c"
    and d: "length (data_c ! i) = rflength st"
    and r: "length Tpds_ref = length (tps ! i)"
    and j: "j \<in> set (loop_samples st)"
    and e: "crossing (refaxis st j) (tps ! i) (length (depths dm)) = []"
  shows "\<exists>row. moveout_event st dm data_c tps Tpds_ref i
                 = Inr (row, int (length (depths dm)) - 1)
               \<and> length row = rflength st"
proof -
  let ?S = "length (depths dm)"
  from s(2) have s0: "0 \<le> shift st" by simp
  from s(1) newaxis_start_ok [of st] obtain a where
    a: "newaxis_start st = Inr a" "length a = nat \<lceil>shift st / sampling st\<rceil> + 1"
    by auto
  from j have jr: "loop_from st \<le> j" "j \<le> int (rflength st) - 1"
    by (simp_all add: loop_samples_def)
  then have split: "loop_samples st
      = [loop_from st..j - 1] @ j # [j + 1..int (rflength st) - 1]"
    unfolding loop_samples_def by (rule upto_split3)
  from newaxis_loop_total [OF r, of st ?S "[loop_from st..j - 1]" a] obtain ax where
    ax: "newaxis_loop st (tps ! i) Tpds_ref ?S [loop_from st..j - 1] a = Inr ax"
      "length a \<le> length ax" "length ax \<le> length a + length [loop_from st..j - 1]"
    by blast
  have loop: "newaxis_loop st (tps ! i) Tpds_ref ?S (loop_samples st) a = Inr ax"
    by (simp add: split newaxis_loop_cut [OF e] ax(1))
  from ax(3) jr(1) have "length ax \<le> length a + nat (j - loop_from st)"
    by simp
  with truncated_axis_fits [OF s(1) s0 jr] a(2) have fits: "length ax \<le> rflength st"
    by linarith
  from ax(2) a(2) have ne: "ax \<noteq> []" by auto
  from fits d have "length ax = length (take (length ax) (data_c ! i))" by simp
  from interp1d_ok [OF this ne] obtain Tempdata where
    t: "interp1d ax (take (length ax) (data_c ! i)) False (NaN, NaN) (x_new_axis st)
          = Inr Tempdata"
    by blast
  have "moveout_event st dm data_c tps Tpds_ref i
          = Inr (finish_row (rflength st) (splice_tail Tempdata (data_c ! i) (length ax)),
                 int ?S - 1)"
    using i by (simp add: moveout_event_def found_empty a(1) loop t)
  then show ?thesis
    by (metis finish_row_length)
qed




end
